theory Spec2Isabelle
  imports Complex_Main "HOL-Library.AList"
begin

section \<open>Python values\<close>

text \<open>
  The values that table cells, insight fields and mock documents carry: \<open>None\<close>, booleans,
  integers, strings, lists and string-keyed dicts. A dict is an association list in
  insertion order with distinct keys. Floating-point cells (and therefore pandas' NaN for
  an empty CSV cell) are outside this value universe. A string is the list of its
  characters, each \<open>char\<close> one code point below 256 (Latin-1 text); every literal of the
  source is ASCII.
\<close>

datatype pyval =
    PNone
  | PBool bool
  | PInt int
  | PStr string
  | PList "pyval list"
  | PDict "(string \<times> pyval) list"

type_synonym pydict = "(string \<times> pyval) list"

text \<open>Every \<open>except Exception\<close> of the source catches each of these.\<close>

datatype error =
    KeyError
  | TypeError
  | ValueError
  | AttributeError
  | UnboundLocalError
  | OtherException string

text \<open>\<open>sep.join(parts)\<close> on a list of strings.\<close>

fun intercalate :: "'a list \<Rightarrow> 'a list list \<Rightarrow> 'a list" where
  "intercalate sep [] = []"
| "intercalate sep [x] = x"
| "intercalate sep (x # y # ys) = x @ sep @ intercalate sep (y # ys)"

definition newline :: string where
  "newline = [CHR 0x0A]"

definition digit_char :: "nat \<Rightarrow> char" where
  "digit_char d = ''0123456789'' ! d"

function str_of_nat :: "nat \<Rightarrow> string" where
  "str_of_nat n =
     (if n < 10 then [digit_char n] else str_of_nat (n div 10) @ [digit_char (n mod 10)])"
  by pat_completeness auto
termination
  by (relation "measure id") auto

declare str_of_nat.simps [simp del]

definition str_of_int :: "int \<Rightarrow> string" where
  "str_of_int i = (if i < 0 then CHR ''-'' # str_of_nat (nat (- i)) else str_of_nat (nat i))"

definition hex_char :: "nat \<Rightarrow> char" where
  "hex_char d = ''0123456789abcdef'' ! d"

text \<open>
  \<open>repr\<close> of a string: single quotes unless the text has a single quote and no double
  quote; backslash and the chosen quote are escaped, and so is every character that is
  not printable: below \<open>0x20\<close>, from \<open>0x7F\<close> to \<open>0xA0\<close>, and the soft hyphen \<open>0xAD\<close>.
\<close>

definition repr_char :: "char \<Rightarrow> char \<Rightarrow> string" where
  "repr_char q c =
     (if c = q \<or> c = CHR 0x5C then [CHR 0x5C, c]
      else if c = CHR 0x09 then [CHR 0x5C, CHR ''t'']
      else if c = CHR 0x0A then [CHR 0x5C, CHR ''n'']
      else if c = CHR 0x0D then [CHR 0x5C, CHR ''r'']
      else if of_char c < (32::nat) \<or> ((127::nat) \<le> of_char c \<and> of_char c \<le> (160::nat))
              \<or> of_char c = (173::nat)
        then [CHR 0x5C, CHR ''x'', hex_char (of_char c div 16), hex_char (of_char c mod 16)]
      else [c])"

definition repr_str :: "string \<Rightarrow> string" where
  "repr_str s =
     (let q = (if CHR 0x27 \<in> set s \<and> CHR 0x22 \<notin> set s then CHR 0x22 else CHR 0x27)
      in [q] @ concat (map (repr_char q) s) @ [q])"

fun py_repr :: "pyval \<Rightarrow> string" where
  "py_repr PNone = ''None''"
| "py_repr (PBool b) = (if b then ''True'' else ''False'')"
| "py_repr (PInt i) = str_of_int i"
| "py_repr (PStr s) = repr_str s"
| "py_repr (PList xs) = ''['' @ intercalate '', '' (map py_repr xs) @ '']''"
| "py_repr (PDict d) =
     ''{'' @ intercalate '', '' (map (\<lambda>(k, v). repr_str k @ '': '' @ py_repr v) d) @ ''}''"

text \<open>\<open>str(v)\<close>, which is what an f-string field \<open>{v}\<close> interpolates.\<close>

fun py_str :: "pyval \<Rightarrow> string" where
  "py_str (PStr s) = s"
| "py_str v = py_repr v"

text \<open>Truth value of an object, as \<open>if v:\<close> tests it.\<close>

fun py_truthy :: "pyval \<Rightarrow> bool" where
  "py_truthy PNone = False"
| "py_truthy (PBool b) = b"
| "py_truthy (PInt i) = (i \<noteq> 0)"
| "py_truthy (PStr s) = (s \<noteq> [])"
| "py_truthy (PList xs) = (xs \<noteq> [])"
| "py_truthy (PDict d) = (d \<noteq> [])"

text \<open>\<open>a == b\<close>: a bool is an int, lists compare pointwise, dicts regardless of order.\<close>

fun py_eq :: "pyval \<Rightarrow> pyval \<Rightarrow> bool" where
  "py_eq PNone w = (w = PNone)"
| "py_eq (PBool a) w =
     (case w of PBool b \<Rightarrow> a = b | PInt j \<Rightarrow> (if a then 1 else 0) = j | _ \<Rightarrow> False)"
| "py_eq (PInt i) w =
     (case w of PBool b \<Rightarrow> i = (if b then 1 else 0) | PInt j \<Rightarrow> i = j | _ \<Rightarrow> False)"
| "py_eq (PStr s) w = (w = PStr s)"
| "py_eq (PList xs) w = (case w of PList ys \<Rightarrow> list_all2 py_eq xs ys | _ \<Rightarrow> False)"
| "py_eq (PDict d) w =
     (case w of
        PDict e \<Rightarrow>
          length d = length e \<and>
          list_all (\<lambda>(k, v). case map_of e k of None \<Rightarrow> False | Some u \<Rightarrow> py_eq v u) d
      | _ \<Rightarrow> False)"

text \<open>\<open>d.get(k, default)\<close>.\<close>

definition dict_get :: "pydict \<Rightarrow> string \<Rightarrow> pyval \<Rightarrow> pyval" where
  "dict_get d k dflt = (case map_of d k of None \<Rightarrow> dflt | Some v \<Rightarrow> v)"

fun is_str :: "pyval \<Rightarrow> bool" where
  "is_str (PStr s) = True"
| "is_str v = False"

text \<open>
  \<open>sep.join(v)\<close>: \<open>v\<close> is iterated (a string by its characters, a dict by its keys) and
  every item must be a string; anything else is a \<open>TypeError\<close>.
\<close>

fun py_join :: "string \<Rightarrow> pyval \<Rightarrow> error + string" where
  "py_join sep (PStr s) = Inr (intercalate sep (map (\<lambda>c. [c]) s))"
| "py_join sep (PList xs) =
     (if list_all is_str xs then Inr (intercalate sep (map py_str xs)) else Inl TypeError)"
| "py_join sep (PDict d) = Inr (intercalate sep (map fst d))"
| "py_join sep v = Inl TypeError"

section \<open>The meta-prompt generator\<close>

subsection \<open>Loaded tables\<close>

text \<open>
  A pandas data frame: the column labels and the rows in source order, one cell per
  column. \<open>read_csv\<close> gives distinct labels; \<open>pd.DataFrame()\<close> has neither columns nor
  rows.
\<close>

record dataframe =
  columns :: "string list"
  rows :: "pyval list list"

text \<open>\<open>df.empty\<close>: some axis has length zero.\<close>

definition df_empty :: "dataframe \<Rightarrow> bool" where
  "df_empty df = (columns df = [] \<or> rows df = [])"

text \<open>\<open>row.to_dict()\<close>: a fresh dict from column label to cell.\<close>

definition to_dict :: "string list \<Rightarrow> pyval list \<Rightarrow> pydict" where
  "to_dict cols r = zip cols r"

text \<open>One entry of the mask \<open>df['user_id'] == user_id\<close>, the right-hand side a string.\<close>

definition row_matches :: "string list \<Rightarrow> string \<Rightarrow> pyval list \<Rightarrow> bool" where
  "row_matches cols user_id r = (map_of (to_dict cols r) ''user_id'' = Some (PStr user_id))"

text \<open>
  \<open>df[df['user_id'] == user_id]\<close>: indexing a frame by a label it does not have raises
  \<open>KeyError\<close>; the boolean mask keeps the matching rows in source order.
\<close>

definition select_user :: "dataframe \<Rightarrow> string \<Rightarrow> error + pyval list list" where
  "select_user df user_id =
     (if ''user_id'' \<notin> set (columns df) then Inl KeyError
      else Inr (filter (row_matches (columns df) user_id) (rows df)))"

text \<open>
  The block of \<open>_get_user_data\<close> for a singular table: the default \<open>{}\<close> stays unless
  the table is non-empty and the selection is non-empty, and then \<open>iloc[0].to_dict()\<close>.
\<close>

definition lookup_first :: "dataframe \<Rightarrow> string \<Rightarrow> error + pydict" where
  "lookup_first df user_id =
     (if \<not> df_empty df then
        (case select_user df user_id of
           Inl e \<Rightarrow> Inl e
         | Inr sel \<Rightarrow> (case sel of [] \<Rightarrow> Inr [] | r # rest \<Rightarrow> Inr (to_dict (columns df) r)))
      else Inr [])"

text \<open>The block for a plural table: the default \<open>[]\<close>, or \<open>to_dict('records')\<close>.\<close>

definition lookup_many :: "dataframe \<Rightarrow> string \<Rightarrow> error + pydict list" where
  "lookup_many df user_id =
     (if \<not> df_empty df then
        (case select_user df user_id of
           Inl e \<Rightarrow> Inl e
         | Inr sel \<Rightarrow> (case sel of [] \<Rightarrow> Inr [] | r # rest \<Rightarrow> Inr (map (to_dict (columns df)) sel)))
      else Inr [])"

text \<open>The six tables a \<open>MetaPromptGenerator\<close> holds after \<open>_load_datasets\<close>.\<close>

record generator =
  demographic_df :: dataframe
  account_df :: dataframe
  transaction_df :: dataframe
  credit_df :: dataframe
  investment_df :: dataframe
  sentiment_df :: dataframe

text \<open>The dict \<open>_get_user_data\<close> returns, one field per key.\<close>

record user_data =
  ud_demographics :: pydict
  ud_account :: pydict
  ud_credit :: pydict
  ud_investments :: pydict
  ud_transactions :: "pydict list"
  ud_sentiment :: "pydict list"

text \<open>
  \<open>_get_user_data\<close>, with the generator threaded through: the six blocks run in source
  order, and the first one to raise ends the call.
\<close>

definition get_user_data :: "generator \<Rightarrow> string \<Rightarrow> (error + user_data) \<times> generator" where
  "get_user_data self user_id =
     ((case lookup_first (demographic_df self) user_id of Inl e \<Rightarrow> Inl e | Inr d \<Rightarrow>
       (case lookup_first (account_df self) user_id of Inl e \<Rightarrow> Inl e | Inr a \<Rightarrow>
       (case lookup_first (credit_df self) user_id of Inl e \<Rightarrow> Inl e | Inr c \<Rightarrow>
       (case lookup_first (investment_df self) user_id of Inl e \<Rightarrow> Inl e | Inr i \<Rightarrow>
       (case lookup_many (transaction_df self) user_id of Inl e \<Rightarrow> Inl e | Inr t \<Rightarrow>
       (case lookup_many (sentiment_df self) user_id of Inl e \<Rightarrow> Inl e | Inr s \<Rightarrow>
          Inr \<lparr>ud_demographics = d, ud_account = a, ud_credit = c, ud_investments = i,
               ud_transactions = t, ud_sentiment = s\<rparr>)))))),
      self)"

subsection \<open>Rendering\<close>

text \<open>
  The five section bodies of \<open>_format_meta_prompt\<close>, each the list of lines the source
  builds before joining it; an f-string field is \<open>py_str\<close> of the looked-up value.
\<close>

definition demo_section :: "pydict \<Rightarrow> string list" where
  "demo_section demographics =
     [''## Demographic Profile'',
      ''Age: '' @ py_str (dict_get demographics ''age'' (PStr ''Unknown'')),
      ''Gender: '' @ py_str (dict_get demographics ''gender'' (PStr ''Unknown'')),
      ''Occupation: '' @ py_str (dict_get demographics ''occupation'' (PStr ''Unknown'')),
      ''Annual Income: $'' @ py_str (dict_get demographics ''annual_income'' (PStr ''Unknown'')),
      ''Education: '' @ py_str (dict_get demographics ''education_level'' (PStr ''Unknown'')),
      ''Location: '' @ py_str (dict_get demographics ''city'' (PStr ''Unknown'')) @ '', ''
        @ py_str (dict_get demographics ''state'' (PStr ''Unknown''))]"

definition finance_section :: "pydict \<Rightarrow> pydict \<Rightarrow> string list" where
  "finance_section account credit =
     [''## Financial Profile'']
     @ (if account \<noteq> [] then
          [''Account Type: '' @ py_str (dict_get account ''account_type'' (PStr ''Unknown'')),
           ''Account Balance: $'' @ py_str (dict_get account ''account_balance'' (PStr ''Unknown'')),
           ''Savings Balance: $'' @ py_str (dict_get account ''savings_balance'' (PStr ''Unknown'')),
           ''Account Opened: '' @ py_str (dict_get account ''account_opening_date'' (PStr ''Unknown''))]
        else [])
     @ (if credit \<noteq> [] then
          [''Credit Score: '' @ py_str (dict_get credit ''credit_score'' (PStr ''Unknown'')),
           ''Outstanding Debt: $'' @ py_str (dict_get credit ''outstanding_debt'' (PStr ''Unknown'')),
           ''Credit Utilization: '' @ py_str (dict_get credit ''credit_utilization'' (PStr ''Unknown''))
             @ ''%'',
           ''Payment History: '' @ py_str (dict_get credit ''payment_history'' (PStr ''Unknown''))]
        else [])"

definition invest_section :: "pydict \<Rightarrow> string list" where
  "invest_section investments =
     [''## Investment Profile'',
      ''Risk Tolerance: '' @ py_str (dict_get investments ''risk_tolerance'' (PStr ''Unknown'')),
      ''Investment Goals: '' @ py_str (dict_get investments ''investment_goals'' (PStr ''Unknown'')),
      ''Current Investments: $''
        @ py_str (dict_get investments ''current_investments'' (PStr ''Unknown'')),
      ''Retirement Savings: $''
        @ py_str (dict_get investments ''retirement_savings'' (PStr ''Unknown'')),
      ''Investment Preferences: ''
        @ py_str (dict_get investments ''investment_preferences'' (PStr ''Unknown''))]"

text \<open>The two insight sections join a list field, which raises when it is not joinable.\<close>

definition trans_section :: "pydict \<Rightarrow> error + string list" where
  "trans_section transaction_insights =
     (case py_join '', '' (dict_get transaction_insights ''top_categories'' (PList [PStr ''Unknown''])) of
        Inl e \<Rightarrow> Inl e
      | Inr cats \<Rightarrow>
          Inr ([''## Spending Patterns'',
                ''Monthly Spending: $''
                  @ py_str (dict_get transaction_insights ''monthly_spending'' (PStr ''Unknown'')),
                ''Top Spending Categories: '' @ cats,
                ''Recent Large Transactions: ''
                  @ py_str (dict_get transaction_insights ''large_transactions'' (PStr ''None''))]
               @ (if py_truthy (dict_get transaction_insights ''recurring_payments'' PNone) then
                    [''Recurring Payments: ''
                       @ py_str (dict_get transaction_insights ''recurring_payments'' (PStr ''None''))]
                  else [])))"

definition sentiment_section :: "pydict \<Rightarrow> error + string list" where
  "sentiment_section sentiment_insights =
     (case py_join '', ''
             (dict_get sentiment_insights ''financial_interests'' (PList [PStr ''Unknown''])) of
        Inl e \<Rightarrow> Inl e
      | Inr interests \<Rightarrow>
          Inr [''## Social Media Insights'',
               ''Overall Sentiment: ''
                 @ py_str (dict_get sentiment_insights ''overall_sentiment'' (PStr ''Unknown'')),
               ''Financial Interests: '' @ interests,
               ''Recent Concerns: ''
                 @ py_str (dict_get sentiment_insights ''financial_concerns'' (PStr ''None''))])"

text \<open>
  The \<open>sections\<close> list at the end of \<open>_format_meta_prompt\<close>, each section still as its
  lines: a section is appended only when its source dict is truthy, in the order of the
  source text.
\<close>

definition format_sections ::
  "pydict \<Rightarrow> pydict \<Rightarrow> pydict \<Rightarrow> pydict \<Rightarrow> pydict \<Rightarrow> pydict \<Rightarrow> error + string list list" where
  "format_sections demographics account credit investments transaction_insights sentiment_insights =
     (let s1 = (if demographics \<noteq> [] then [demo_section demographics] else []);
          s2 = s1 @ (if account \<noteq> [] \<or> credit \<noteq> [] then [finance_section account credit] else []);
          s3 = s2 @ (if investments \<noteq> [] then [invest_section investments] else [])
      in case (if transaction_insights \<noteq> []
               then map_sum id (\<lambda>sec. s3 @ [sec]) (trans_section transaction_insights)
               else Inr s3) of
           Inl e \<Rightarrow> Inl e
         | Inr s4 \<Rightarrow>
             (if sentiment_insights \<noteq> []
              then map_sum id (\<lambda>sec. s4 @ [sec]) (sentiment_section sentiment_insights)
              else Inr s4))"

definition fallback_new :: string where
  "fallback_new = ''New financial advisor user with limited context information available.''"

definition fallback_error :: string where
  "fallback_error = ''Financial advisor user with limited context information available.''"

text \<open>
  \<open>_format_meta_prompt\<close>: lines joined by a newline, sections by a blank line, and the
  generic sentence when the joined text is empty.
\<close>

definition format_meta_prompt ::
  "pydict \<Rightarrow> pydict \<Rightarrow> pydict \<Rightarrow> pydict \<Rightarrow> pydict \<Rightarrow> pydict \<Rightarrow> error + string" where
  "format_meta_prompt demographics account credit investments transaction_insights sentiment_insights =
     (case format_sections demographics account credit investments
             transaction_insights sentiment_insights of
        Inl e \<Rightarrow> Inl e
      | Inr sections \<Rightarrow>
          (let meta_prompt = intercalate (newline @ newline) (map (intercalate newline) sections)
           in Inr (if meta_prompt = [] then fallback_new else meta_prompt)))"

subsection \<open>Orchestration\<close>

text \<open>
  \<open>DataProcessor\<close> (\<open>app.utils.data_processor\<close>) is a collaborator whose two extraction
  methods are parameters here: each takes the user's rows and returns an insight dict or
  raises.
\<close>

type_synonym extractor = "pydict list \<Rightarrow> error + pydict"

text \<open>The body of the \<open>try\<close> block of \<open>generate_meta_prompt\<close>.\<close>

definition generate_meta_prompt_try ::
  "generator \<Rightarrow> extractor \<Rightarrow> extractor \<Rightarrow> string \<Rightarrow> (error + string) \<times> generator" where
  "generate_meta_prompt_try self extract_transaction_insights extract_sentiment_insights user_id =
     (case get_user_data self user_id of
        (Inl e, self1) \<Rightarrow> (Inl e, self1)
      | (Inr user_data, self1) \<Rightarrow>
          (case extract_transaction_insights (ud_transactions user_data) of
             Inl e \<Rightarrow> (Inl e, self1)
           | Inr transaction_insights \<Rightarrow>
               (case extract_sentiment_insights (ud_sentiment user_data) of
                  Inl e \<Rightarrow> (Inl e, self1)
                | Inr sentiment_insights \<Rightarrow>
                    (format_meta_prompt (ud_demographics user_data) (ud_account user_data)
                       (ud_credit user_data) (ud_investments user_data)
                       transaction_insights sentiment_insights,
                     self1))))"

text \<open>
  \<open>generate_meta_prompt\<close>: the \<open>except Exception\<close> handler turns any raise of the body
  into the fixed sentence. The result is the returned text and the generator after the
  call.
\<close>

definition generate_meta_prompt ::
  "generator \<Rightarrow> extractor \<Rightarrow> extractor \<Rightarrow> string \<Rightarrow> string \<times> generator" where
  "generate_meta_prompt self extract_transaction_insights extract_sentiment_insights user_id =
     (case generate_meta_prompt_try self extract_transaction_insights
             extract_sentiment_insights user_id of
        (Inl e, self1) \<Rightarrow> (fallback_error, self1)
      | (Inr meta_prompt, self1) \<Rightarrow> (meta_prompt, self1))"

section \<open>Transaction insights\<close>

text \<open>
  A transaction as insight extraction reads it: the amount, the category and the calendar
  month of its timestamp (months numbered consecutively).
\<close>

record transaction =
  tx_amount :: rat
  tx_category :: string
  tx_month :: nat

text \<open>
  Modelled from the spec: \<open>DataProcessor.extract_transaction_insights\<close> of
  \<open>app.utils.data_processor\<close> is not among the sources. Its \<open>monthly_spending\<close> is
  defined as: group the amounts by calendar month of timestamp (\<open>month_total\<close> is the
  total of one month) and average the per-month totals; an empty sequence gives the
  neutral value.
\<close>

definition month_total :: "transaction list \<Rightarrow> nat \<Rightarrow> rat" where
  "month_total ts m = sum_list (map tx_amount (filter (\<lambda>t. tx_month t = m) ts))"

definition monthly_spending :: "transaction list \<Rightarrow> rat" where
  "monthly_spending ts =
     (let months = remdups (map tx_month ts)
      in if months = [] then 0
         else sum_list (map (month_total ts) months) / of_nat (length months))"

section \<open>The in-memory collection\<close>

text \<open>
  A stored document is a dict whose keys are hashable values: the queries and updates of
  the callers are string-keyed, but \<open>dict.update\<close> in the upsert branch takes any
  iterable of key-value pairs, and a key of such a pair need not be a string. Keys are
  compared as a dict compares them, by \<open>==\<close>.
\<close>

type_synonym document = "(pyval \<times> pyval) list"

fun hashable :: "pyval \<Rightarrow> bool" where
  "hashable (PList xs) = False"
| "hashable (PDict d) = False"
| "hashable v = True"

text \<open>\<open>item[key]\<close> when \<open>key in item\<close>, and \<open>item[key] = value\<close>.\<close>

fun doc_get :: "document \<Rightarrow> pyval \<Rightarrow> pyval option" where
  "doc_get [] key = None"
| "doc_get ((k, w) # rest) key = (if py_eq k key then Some w else doc_get rest key)"

fun doc_set :: "pyval \<Rightarrow> pyval \<Rightarrow> document \<Rightarrow> document" where
  "doc_set key v [] = [(key, v)]"
| "doc_set key v ((k, w) # rest) =
     (if py_eq k key then (k, v) # rest else (k, w) # doc_set key v rest)"

text \<open>A string-keyed dict as a fresh document: \<open>{**query}\<close>.\<close>

definition as_document :: "pydict \<Rightarrow> document" where
  "as_document d = map (\<lambda>(key, v). (PStr key, v)) d"

text \<open>
  \<open>MockCollection\<close>: a name and the documents in insertion order. Each document is an
  object of its own (no document is stored twice), so mutating the found item changes
  exactly one position of \<open>data\<close>.
\<close>

record collection =
  coll_name :: string
  data :: "document list"

text \<open>The inner loop of \<open>find_one\<close>: every key of the query is in the item with an equal value.\<close>

definition query_matches :: "pydict \<Rightarrow> document \<Rightarrow> bool" where
  "query_matches query item =
     list_all (\<lambda>(key, v). case doc_get item (PStr key) of None \<Rightarrow> False | Some w \<Rightarrow> py_eq w v)
       query"

fun first_index :: "('a \<Rightarrow> bool) \<Rightarrow> 'a list \<Rightarrow> nat option" where
  "first_index P [] = None"
| "first_index P (x # xs) = (if P x then Some 0 else map_option Suc (first_index P xs))"

text \<open>
  \<open>find_one\<close> returns the stored object itself; \<open>find_one_index\<close> is its position. A
  missing or empty query takes the first document.
\<close>

definition find_one_index :: "collection \<Rightarrow> pydict \<Rightarrow> nat option" where
  "find_one_index self query =
     (if query = [] then (if data self \<noteq> [] then Some 0 else None)
      else first_index (query_matches query) (data self))"

definition find_one :: "collection \<Rightarrow> pydict \<Rightarrow> document option" where
  "find_one self query = map_option (\<lambda>i. data self ! i) (find_one_index self query)"

text \<open>\<open>insert_one\<close> appends; its result object is not used by \<open>update_one\<close>.\<close>

definition insert_one :: "collection \<Rightarrow> document \<Rightarrow> collection" where
  "insert_one self doc = self\<lparr>data := data self @ [doc]\<rparr>"

record update_result =
  matched_count :: nat
  modified_count :: nat
  upserted_id :: pyval

text \<open>
  \<open>for key, value in flds.items(): item[key] = value\<close>, which is also \<open>item.update(flds)\<close>
  for a dict \<open>flds\<close>.
\<close>

definition set_items :: "document \<Rightarrow> pydict \<Rightarrow> document" where
  "set_items item flds = fold (\<lambda>(key, v) it. doc_set (PStr key) v it) flds item"

text \<open>
  \<open>dict.update(operand)\<close> for an operand that is not a dict: the operand is iterated, and
  each element is read as a sequence (a list by its items, a string by its characters, a
  dict by its keys) that must have exactly two items, the key and the value. An operand
  or element that is not iterable and a key that is not hashable raise \<open>TypeError\<close>, a
  wrong length raises \<open>ValueError\<close>.
\<close>

fun as_sequence :: "pyval \<Rightarrow> pyval list option" where
  "as_sequence (PList xs) = Some xs"
| "as_sequence (PStr s) = Some (map (\<lambda>c. PStr [c]) s)"
| "as_sequence (PDict d) = Some (map (\<lambda>(key, v). PStr key) d)"
| "as_sequence v = None"

fun merge_pairs :: "document \<Rightarrow> pyval list \<Rightarrow> error + document" where
  "merge_pairs doc [] = Inr doc"
| "merge_pairs doc (x # xs) =
     (case as_sequence x of
        None \<Rightarrow> Inl TypeError
      | Some [key, v] \<Rightarrow> (if hashable key then merge_pairs (doc_set key v doc) xs else Inl TypeError)
      | Some other \<Rightarrow> Inl ValueError)"

fun dict_update :: "document \<Rightarrow> pyval \<Rightarrow> error + document" where
  "dict_update doc (PDict flds) = Inr (set_items doc flds)"
| "dict_update doc (PList xs) = merge_pairs doc xs"
| "dict_update doc (PStr s) = merge_pairs doc (map (\<lambda>c. PStr [c]) s)"
| "dict_update doc v = Inl TypeError"

text \<open>
  The document the upsert branch builds: a copy of the query, updated with the operand of
  \<open>$set\<close> when the update has one and with the update itself otherwise.
\<close>

definition upsert_doc :: "pydict \<Rightarrow> pydict \<Rightarrow> error + document" where
  "upsert_doc query update =
     (case map_of update ''$set'' of
        None \<Rightarrow> Inr (set_items (as_document query) update)
      | Some operand \<Rightarrow> dict_update (as_document query) operand)"

text \<open>
  \<open>update_one\<close>. The class \<open>MockUpdateResult\<close> is a local name bound by the class statement
  inside the \<open>if item:\<close> branch, so the two other branches read it unbound. In the first
  branch \<open>update['$set'].items()\<close> needs a dict. The result is the returned value or the
  exception, and the collection after the call.
\<close>

definition update_one ::
  "collection \<Rightarrow> pydict \<Rightarrow> pydict \<Rightarrow> bool \<Rightarrow> (error + update_result) \<times> collection" where
  "update_one self query update upsert =
     (case (case find_one_index self query of
              None \<Rightarrow> None
            | Some i \<Rightarrow> (if data self ! i \<noteq> [] then Some i else None)) of
        Some i \<Rightarrow>
          (case map_of update ''$set'' of
             None \<Rightarrow>
               (Inr \<lparr>matched_count = 1, modified_count = 1, upserted_id = PNone\<rparr>,
                self\<lparr>data := (data self)[i := set_items (data self ! i) update]\<rparr>)
           | Some (PDict flds) \<Rightarrow>
               (Inr \<lparr>matched_count = 1, modified_count = 1, upserted_id = PNone\<rparr>,
                self\<lparr>data := (data self)[i := set_items (data self ! i) flds]\<rparr>)
           | Some other \<Rightarrow> (Inl AttributeError, self))
      | None \<Rightarrow>
          (if upsert then
             (case upsert_doc query update of
                Inl e \<Rightarrow> (Inl e, self)
              | Inr new_doc \<Rightarrow> (Inl UnboundLocalError, insert_one self new_doc))
           else (Inl UnboundLocalError, self)))"

section \<open>Reading the rendered text\<close>

text \<open>\<open>text.split('\n')\<close>: the lines of a text.\<close>

fun split_lines :: "string \<Rightarrow> string list" where
  "split_lines [] = [[]]"
| "split_lines (c # cs) =
     (if c = CHR 0x0A then [] # split_lines cs
      else (case split_lines cs of [] \<Rightarrow> [[c]] | l # ls \<Rightarrow> (c # l) # ls))"

definition is_header :: "string \<Rightarrow> bool" where
  "is_header l = (take 2 l = ''##'')"

text \<open>A generator whose only non-empty table is the demographic one, with one user.\<close>

definition demo_only_generator :: generator where
  "demo_only_generator =
     \<lparr>demographic_df =
        \<lparr>columns = [''user_id'', ''age'', ''occupation'', ''annual_income'', ''city'', ''state''],
         rows = [[PStr ''u1'', PInt 34, PStr ''Engineer'', PInt 95000, PStr ''Austin'', PStr ''TX'']]\<rparr>,
      account_df = \<lparr>columns = [], rows = []\<rparr>,
      transaction_df = \<lparr>columns = [], rows = []\<rparr>,
      credit_df = \<lparr>columns = [], rows = []\<rparr>,
      investment_df = \<lparr>columns = [], rows = []\<rparr>,
      sentiment_df = \<lparr>columns = [], rows = []\<rparr>\<rparr>"

section \<open>Predicates of the properties\<close>

text \<open>No row of the table belongs to the user.\<close>

definition no_user_rows :: "dataframe \<Rightarrow> string \<Rightarrow> bool" where
  "no_user_rows df user_id = list_all (\<lambda>r. \<not> row_matches (columns df) user_id r) (rows df)"

definition no_user_data :: "generator \<Rightarrow> string \<Rightarrow> bool" where
  "no_user_data self user_id =
     (no_user_rows (demographic_df self) user_id \<and> no_user_rows (account_df self) user_id \<and>
      no_user_rows (transaction_df self) user_id \<and> no_user_rows (credit_df self) user_id \<and>
      no_user_rows (investment_df self) user_id \<and> no_user_rows (sentiment_df self) user_id)"

text \<open>
  An extractor that, given no rows, raises or returns the empty insight dict: what the
  design asks of \<open>DataProcessor\<close> on empty input, at most.
\<close>

definition empty_on_empty :: "extractor \<Rightarrow> bool" where
  "empty_on_empty ex = (case ex [] of Inl e \<Rightarrow> True | Inr d \<Rightarrow> d = [])"

text \<open>The three stages of the pipeline, each raising.\<close>

definition lookup_raises :: "generator \<Rightarrow> string \<Rightarrow> bool" where
  "lookup_raises self user_id = isl (fst (get_user_data self user_id))"

definition extraction_raises :: "generator \<Rightarrow> extractor \<Rightarrow> extractor \<Rightarrow> string \<Rightarrow> bool" where
  "extraction_raises self et es user_id =
     (case fst (get_user_data self user_id) of
        Inl e \<Rightarrow> False
      | Inr ud \<Rightarrow>
          (case et (ud_transactions ud) of
             Inl e \<Rightarrow> True
           | Inr ti \<Rightarrow> isl (es (ud_sentiment ud))))"

definition rendering_raises :: "generator \<Rightarrow> extractor \<Rightarrow> extractor \<Rightarrow> string \<Rightarrow> bool" where
  "rendering_raises self et es user_id =
     (case fst (get_user_data self user_id) of
        Inl e \<Rightarrow> False
      | Inr ud \<Rightarrow>
          (case et (ud_transactions ud) of
             Inl e \<Rightarrow> False
           | Inr ti \<Rightarrow>
               (case es (ud_sentiment ud) of
                  Inl e \<Rightarrow> False
                | Inr si \<Rightarrow>
                    isl (format_meta_prompt (ud_demographics ud) (ud_account ud) (ud_credit ud)
                           (ud_investments ud) ti si))))"

text \<open>Row \<open>i\<close> is the first row of the table, in source order, that belongs to the user.\<close>

definition first_match :: "dataframe \<Rightarrow> string \<Rightarrow> nat \<Rightarrow> bool" where
  "first_match df user_id i =
     (i < length (rows df) \<and> row_matches (columns df) user_id (rows df ! i) \<and>
      list_all (\<lambda>r. \<not> row_matches (columns df) user_id r) (take i (rows df)))"

text \<open>
  The headers of the fixed section order, each kept when its source is non-empty; the
  Financial Profile has two sources.
\<close>

definition expected_headers ::
  "pydict \<Rightarrow> pydict \<Rightarrow> pydict \<Rightarrow> pydict \<Rightarrow> pydict \<Rightarrow> pydict \<Rightarrow> string list" where
  "expected_headers demographics account credit investments transaction_insights sentiment_insights =
     map fst (filter snd
       [(''## Demographic Profile'', demographics \<noteq> []),
        (''## Financial Profile'', account \<noteq> [] \<or> credit \<noteq> []),
        (''## Investment Profile'', investments \<noteq> []),
        (''## Spending Patterns'', transaction_insights \<noteq> []),
        (''## Social Media Insights'', sentiment_insights \<noteq> [])])"

definition newline_free :: "string list list \<Rightarrow> bool" where
  "newline_free secs = list_all (list_all (\<lambda>l. CHR 0x0A \<notin> set l)) secs"

text \<open>What a field shows: the text of its value when the source has it, a placeholder when not.\<close>

definition shown :: "pydict \<Rightarrow> string \<Rightarrow> string \<Rightarrow> string" where
  "shown src key placeholder = (case map_of src key of None \<Rightarrow> placeholder | Some v \<Rightarrow> py_str v)"

text \<open>A table with two rows of user \<open>u1\<close> after a row of another user, held four times.\<close>

definition duplicate_rows_table :: dataframe where
  "duplicate_rows_table =
     \<lparr>columns = [''user_id'', ''rank''],
      rows = [[PStr ''u0'', PInt 1], [PStr ''u1'', PInt 2], [PStr ''u1'', PInt 3]]\<rparr>"

definition duplicate_rows_generator :: generator where
  "duplicate_rows_generator =
     \<lparr>demographic_df = duplicate_rows_table,
      account_df = duplicate_rows_table,
      transaction_df = \<lparr>columns = [], rows = []\<rparr>,
      credit_df = duplicate_rows_table,
      investment_df = duplicate_rows_table,
      sentiment_df = \<lparr>columns = [], rows = []\<rparr>\<rparr>"

text \<open>The sections of the four records, before the two insight sections.\<close>

definition head_sections :: "pydict \<Rightarrow> pydict \<Rightarrow> pydict \<Rightarrow> pydict \<Rightarrow> string list list" where
  "head_sections d a c i =
     (if d \<noteq> [] then [demo_section d] else [])
     @ (if a \<noteq> [] \<or> c \<noteq> [] then [finance_section a c] else [])
     @ (if i \<noteq> [] then [invest_section i] else [])"

text \<open>The three transactions of the worked example: two in month 1, one in month 2.\<close>

definition example_transactions :: "transaction list" where
  "example_transactions =
     [\<lparr>tx_amount = 100, tx_category = ''Food'', tx_month = 1\<rparr>,
      \<lparr>tx_amount = 300, tx_category = ''Food'', tx_month = 2\<rparr>,
      \<lparr>tx_amount = 50, tx_category = ''Travel'', tx_month = 1\<rparr>]"

text \<open>An update whose \<open>$set\<close> operand, when it has one, is a dict.\<close>

definition wf_update :: "pydict \<Rightarrow> bool" where
  "wf_update update =
     (case map_of update ''$set'' of
        None \<Rightarrow> True
      | Some (PDict flds) \<Rightarrow> True
      | Some other \<Rightarrow> False)"

text \<open>The key-value pairs an update writes: the operand of \<open>$set\<close>, or the update itself.\<close>

definition update_fields :: "pydict \<Rightarrow> pydict" where
  "update_fields update =
     (case map_of update ''$set'' of Some (PDict flds) \<Rightarrow> flds | _ \<Rightarrow> update)"

text \<open>The entries of a query overridden, in order, by the fields of an update.\<close>

definition merge_fields :: "pydict \<Rightarrow> pydict \<Rightarrow> pydict" where
  "merge_fields query flds = fold (\<lambda>(key, v) d. AList.update key v d) flds query"

section \<open>Properties\<close>

lemmas render_defs = format_meta_prompt_def format_sections_def demo_section_def
  finance_section_def invest_section_def trans_section_def sentiment_section_def
  dict_get_def newline_def fallback_new_def

lemmas int_defs = str_of_int_def str_of_nat.simps digit_char_def

lemmas lookup_defs = get_user_data_def lookup_first_def lookup_many_def select_user_def
  df_empty_def row_matches_def to_dict_def

lemmas generate_defs = generate_meta_prompt_def generate_meta_prompt_try_def

subsection \<open>A user without data\<close>

lemma lookup_first_none:
  "no_user_rows df uid \<Longrightarrow> lookup_first df uid = Inl KeyError \<or> lookup_first df uid = Inr []"
  by (simp add: no_user_rows_def lookup_first_def select_user_def list_all_iff
      filter_empty_conv[THEN iffD2])

lemma lookup_many_none:
  "no_user_rows df uid \<Longrightarrow> lookup_many df uid = Inl KeyError \<or> lookup_many df uid = Inr []"
  by (simp add: no_user_rows_def lookup_many_def select_user_def list_all_iff
      filter_empty_conv[THEN iffD2])

lemma get_user_data_state: "get_user_data g uid = (fst (get_user_data g uid), g)"
  by (simp add: get_user_data_def)

lemma get_user_data_none:
  assumes "no_user_data g uid"
  shows "fst (get_user_data g uid) = Inl KeyError \<or>
         fst (get_user_data g uid) =
           Inr \<lparr>ud_demographics = [], ud_account = [], ud_credit = [], ud_investments = [],
                ud_transactions = [], ud_sentiment = []\<rparr>"
proof -
  from assms have
    d: "lookup_first (demographic_df g) uid = Inl KeyError
        \<or> lookup_first (demographic_df g) uid = Inr []" and
    a: "lookup_first (account_df g) uid = Inl KeyError
        \<or> lookup_first (account_df g) uid = Inr []" and
    c: "lookup_first (credit_df g) uid = Inl KeyError
        \<or> lookup_first (credit_df g) uid = Inr []" and
    i: "lookup_first (investment_df g) uid = Inl KeyError
        \<or> lookup_first (investment_df g) uid = Inr []" and
    t: "lookup_many (transaction_df g) uid = Inl KeyError
        \<or> lookup_many (transaction_df g) uid = Inr []" and
    s: "lookup_many (sentiment_df g) uid = Inl KeyError
        \<or> lookup_many (sentiment_df g) uid = Inr []"
    by (simp_all add: no_user_data_def lookup_first_none lookup_many_none)
  from d a c i t s show ?thesis
    unfolding get_user_data_def by (elim disjE) simp_all
qed

lemma format_all_empty: "format_meta_prompt [] [] [] [] [] [] = Inr fallback_new"
  by (simp add: format_meta_prompt_def format_sections_def)

text \<open>
  C1. When none of the six tables has a row of the user, and the two extractors given no
  rows raise or return the empty insight dict, \<open>generate_meta_prompt\<close> returns one of the
  two fixed sentences. It returns a text on every input: the result type has no error.
\<close>

theorem no_data_gives_fallback:
  assumes "no_user_data g uid" and "empty_on_empty et" and "empty_on_empty es"
  shows "fst (generate_meta_prompt g et es uid) = fallback_error \<or>
         fst (generate_meta_prompt g et es uid) = fallback_new"
proof -
  note g = get_user_data_state[of g uid]
  from get_user_data_none[OF assms(1)] show ?thesis
  proof
    assume "fst (get_user_data g uid) = Inl KeyError"
    with g have "get_user_data g uid = (Inl KeyError, g)" by simp
    then show ?thesis
      by (simp add: generate_defs)
  next
    assume "fst (get_user_data g uid) =
           Inr \<lparr>ud_demographics = [], ud_account = [], ud_credit = [], ud_investments = [],
                ud_transactions = [], ud_sentiment = []\<rparr>"
    with g have "get_user_data g uid =
        (Inr \<lparr>ud_demographics = [], ud_account = [], ud_credit = [], ud_investments = [],
              ud_transactions = [], ud_sentiment = []\<rparr>, g)"
      by simp
    with assms(2,3) show ?thesis
      by (auto simp add: generate_defs empty_on_empty_def format_all_empty split: sum.splits)
  qed
qed

theorem no_data_gives_fallback_witness:
  "no_user_data demo_only_generator ''nobody'' \<and>
   empty_on_empty (\<lambda>rs. Inr []) \<and>
   empty_on_empty (\<lambda>rs. Inl (OtherException ''no rows'')) \<and>
   (fst (generate_meta_prompt demo_only_generator (\<lambda>rs. Inr [])
           (\<lambda>rs. Inl (OtherException ''no rows'')) ''nobody'') = fallback_error \<or>
    fst (generate_meta_prompt demo_only_generator (\<lambda>rs. Inr [])
           (\<lambda>rs. Inl (OtherException ''no rows'')) ''nobody'') = fallback_new)"
proof -
  have h1: "no_user_data demo_only_generator ''nobody''"
    by (simp add: no_user_data_def no_user_rows_def demo_only_generator_def row_matches_def
        to_dict_def)
  have h2: "empty_on_empty (\<lambda>rs. Inr [])"
    by (simp add: empty_on_empty_def)
  have h3: "empty_on_empty (\<lambda>rs. Inl (OtherException ''no rows''))"
    by (simp add: empty_on_empty_def)
  from no_data_gives_fallback[OF h1 h2 h3] h1 h2 h3 show ?thesis
    by blast
qed

subsection \<open>The exception handler\<close>

text \<open>
  C2. If the data lookup, one of the two insight extractions or the rendering raises,
  \<open>generate_meta_prompt\<close> returns the sentence of its handler.
\<close>

theorem raise_gives_fallback_error:
  assumes "lookup_raises g uid \<or> extraction_raises g et es uid \<or> rendering_raises g et es uid"
  shows "fst (generate_meta_prompt g et es uid) = fallback_error"
proof -
  note g = get_user_data_state[of g uid]
  show ?thesis
  proof (cases "fst (get_user_data g uid)")
    case (Inl e)
    with g have "get_user_data g uid = (Inl e, g)" by simp
    then show ?thesis by (simp add: generate_defs)
  next
    case (Inr ud)
    with g have "get_user_data g uid = (Inr ud, g)" by simp
    with assms Inr show ?thesis
      by (auto simp add: generate_defs lookup_raises_def extraction_raises_def
          rendering_raises_def isl_def split: sum.splits)
  qed
qed

theorem raise_gives_fallback_error_witness:
  "lookup_raises
     (demo_only_generator\<lparr>account_df := \<lparr>columns = [''id''], rows = [[PStr ''u1'']]\<rparr>\<rparr>) ''u1'' \<and>
   fst (generate_meta_prompt
          (demo_only_generator\<lparr>account_df := \<lparr>columns = [''id''], rows = [[PStr ''u1'']]\<rparr>\<rparr>)
          (\<lambda>rs. Inr []) (\<lambda>rs. Inr []) ''u1'') = fallback_error \<and>
   extraction_raises demo_only_generator (\<lambda>rs. Inl (OtherException ''boom'')) (\<lambda>rs. Inr []) ''u1'' \<and>
   fst (generate_meta_prompt demo_only_generator (\<lambda>rs. Inl (OtherException ''boom''))
          (\<lambda>rs. Inr []) ''u1'') = fallback_error \<and>
   rendering_raises demo_only_generator (\<lambda>rs. Inr [(''top_categories'', PInt 3)])
     (\<lambda>rs. Inr []) ''u1'' \<and>
   fst (generate_meta_prompt demo_only_generator (\<lambda>rs. Inr [(''top_categories'', PInt 3)])
          (\<lambda>rs. Inr []) ''u1'') = fallback_error"
proof -
  have h1: "lookup_raises
     (demo_only_generator\<lparr>account_df := \<lparr>columns = [''id''], rows = [[PStr ''u1'']]\<rparr>\<rparr>) ''u1''"
    by (simp add: lookup_raises_def lookup_defs demo_only_generator_def)
  have h2: "extraction_raises demo_only_generator (\<lambda>rs. Inl (OtherException ''boom''))
     (\<lambda>rs. Inr []) ''u1''"
    by (simp add: extraction_raises_def lookup_defs demo_only_generator_def)
  have h3: "rendering_raises demo_only_generator (\<lambda>rs. Inr [(''top_categories'', PInt 3)])
     (\<lambda>rs. Inr []) ''u1''"
    by (simp add: rendering_raises_def lookup_defs demo_only_generator_def render_defs)
  have r1: "fst (generate_meta_prompt
          (demo_only_generator\<lparr>account_df := \<lparr>columns = [''id''], rows = [[PStr ''u1'']]\<rparr>\<rparr>)
          (\<lambda>rs. Inr []) (\<lambda>rs. Inr []) ''u1'') = fallback_error"
    by (rule raise_gives_fallback_error) (simp add: h1)
  have r2: "fst (generate_meta_prompt demo_only_generator (\<lambda>rs. Inl (OtherException ''boom''))
          (\<lambda>rs. Inr []) ''u1'') = fallback_error"
    by (rule raise_gives_fallback_error) (simp add: h2)
  have r3: "fst (generate_meta_prompt demo_only_generator (\<lambda>rs. Inr [(''top_categories'', PInt 3)])
          (\<lambda>rs. Inr []) ''u1'') = fallback_error"
    by (rule raise_gives_fallback_error) (simp add: h3)
  from h1 h2 h3 r1 r2 r3 show ?thesis by blast
qed

subsection \<open>The demographic example\<close>

text \<open>
  C5. For the demographic record age 34, occupation Engineer, annual income 95000, city
  Austin, state TX and every other record and insight dict empty, the rendered text is
  the Demographic Profile section with the lines \<open>Age: 34\<close>, \<open>Occupation: Engineer\<close>,
  \<open>Annual Income: $95000\<close> and \<open>Location: Austin, TX\<close>, its only header line is
  \<open>## Demographic Profile\<close>, and a generator holding just that row returns this text.
\<close>

theorem demographic_only_example:
  "map_sum id split_lines
     (format_meta_prompt
        [(''age'', PInt 34), (''occupation'', PStr ''Engineer''), (''annual_income'', PInt 95000),
         (''city'', PStr ''Austin''), (''state'', PStr ''TX'')] [] [] [] [] []) =
   Inr [''## Demographic Profile'', ''Age: 34'', ''Gender: Unknown'', ''Occupation: Engineer'',
        ''Annual Income: $95000'', ''Education: Unknown'', ''Location: Austin, TX''] \<and>
   map_sum id (filter is_header \<circ> split_lines)
     (format_meta_prompt
        [(''age'', PInt 34), (''occupation'', PStr ''Engineer''), (''annual_income'', PInt 95000),
         (''city'', PStr ''Austin''), (''state'', PStr ''TX'')] [] [] [] [] []) =
   Inr [''## Demographic Profile''] \<and>
   split_lines (fst (generate_meta_prompt demo_only_generator (\<lambda>rs. Inr []) (\<lambda>rs. Inr []) ''u1'')) =
   [''## Demographic Profile'', ''Age: 34'', ''Gender: Unknown'', ''Occupation: Engineer'',
    ''Annual Income: $95000'', ''Education: Unknown'', ''Location: Austin, TX'']"
proof (intro conjI)
  show "map_sum id split_lines
     (format_meta_prompt
        [(''age'', PInt 34), (''occupation'', PStr ''Engineer''), (''annual_income'', PInt 95000),
         (''city'', PStr ''Austin''), (''state'', PStr ''TX'')] [] [] [] [] []) =
   Inr [''## Demographic Profile'', ''Age: 34'', ''Gender: Unknown'', ''Occupation: Engineer'',
        ''Annual Income: $95000'', ''Education: Unknown'', ''Location: Austin, TX'']"
    by (simp add: render_defs int_defs)
  show "map_sum id (filter is_header \<circ> split_lines)
     (format_meta_prompt
        [(''age'', PInt 34), (''occupation'', PStr ''Engineer''), (''annual_income'', PInt 95000),
         (''city'', PStr ''Austin''), (''state'', PStr ''TX'')] [] [] [] [] []) =
   Inr [''## Demographic Profile'']"
    by (simp add: render_defs int_defs is_header_def)
  show "split_lines (fst (generate_meta_prompt demo_only_generator (\<lambda>rs. Inr []) (\<lambda>rs. Inr []) ''u1'')) =
   [''## Demographic Profile'', ''Age: 34'', ''Gender: Unknown'', ''Occupation: Engineer'',
    ''Annual Income: $95000'', ''Education: Unknown'', ''Location: Austin, TX'']"
    by (simp add: generate_defs lookup_defs demo_only_generator_def render_defs int_defs)
qed

subsection \<open>The tables are only read\<close>

text \<open>
  C8. The generator after \<open>generate_meta_prompt\<close>, and after its data lookup, is the
  generator before the call: all six tables are unchanged, whatever the user identifier
  and whatever the extractors return.
\<close>

theorem tables_unchanged:
  "snd (generate_meta_prompt g et es uid) = g \<and> snd (get_user_data g uid) = g"
  by (simp add: generate_defs get_user_data_def split: prod.splits sum.splits)

subsection \<open>The first matching row\<close>

lemma filter_first:
  "i < length xs \<Longrightarrow> P (xs ! i) \<Longrightarrow> list_all (\<lambda>x. \<not> P x) (take i xs) \<Longrightarrow>
   \<exists>rest. filter P xs = xs ! i # rest"
proof (induction xs arbitrary: i)
  case Nil
  then show ?case by simp
next
  case (Cons x xs)
  show ?case
  proof (cases i)
    case 0
    with Cons.prems show ?thesis by simp
  next
    case (Suc j)
    with Cons.prems have "j < length xs" "P (xs ! j)" "list_all (\<lambda>x. \<not> P x) (take j xs)" "\<not> P x"
      by simp_all
    with Cons.IH[of j] Suc show ?thesis by auto
  qed
qed

lemma row_matches_column: "row_matches cols uid r \<Longrightarrow> ''user_id'' \<in> set cols"
  by (auto simp add: row_matches_def to_dict_def dest!: map_of_SomeD set_zip_leftD)

lemma lookup_first_first_match:
  assumes "first_match df uid i"
  shows "lookup_first df uid = Inr (to_dict (columns df) (rows df ! i))"
proof -
  from assms have i: "i < length (rows df)" and m: "row_matches (columns df) uid (rows df ! i)"
    and n: "list_all (\<lambda>r. \<not> row_matches (columns df) uid r) (take i (rows df))"
    by (simp_all add: first_match_def)
  from row_matches_column[OF m] have c: "''user_id'' \<in> set (columns df)" .
  then have ne: "columns df \<noteq> []" by auto
  from i have re: "rows df \<noteq> []" by auto
  from filter_first[OF i, of "row_matches (columns df) uid", OF m n]
  obtain rest where "filter (row_matches (columns df) uid) (rows df) = rows df ! i # rest" ..
  with c ne re show ?thesis
    by (simp add: lookup_first_def select_user_def df_empty_def)
qed

text \<open>
  C6. When the data lookup returns, each of the four singular records is the dict of the
  first row, in source order, whose \<open>user_id\<close> is the user's, however many later rows
  match.
\<close>

theorem first_matching_row_selected:
  assumes "fst (get_user_data g uid) = Inr ud"
  shows "(first_match (demographic_df g) uid i \<longrightarrow>
            ud_demographics ud =
              to_dict (columns (demographic_df g)) (rows (demographic_df g) ! i)) \<and>
         (first_match (account_df g) uid i \<longrightarrow>
            ud_account ud = to_dict (columns (account_df g)) (rows (account_df g) ! i)) \<and>
         (first_match (credit_df g) uid i \<longrightarrow>
            ud_credit ud = to_dict (columns (credit_df g)) (rows (credit_df g) ! i)) \<and>
         (first_match (investment_df g) uid i \<longrightarrow>
            ud_investments ud =
              to_dict (columns (investment_df g)) (rows (investment_df g) ! i))"
  using assms
  by (auto simp add: get_user_data_def lookup_first_first_match split: sum.splits)

theorem first_matching_row_selected_witness:
  "fst (get_user_data duplicate_rows_generator ''u1'') =
     Inr \<lparr>ud_demographics = [(''user_id'', PStr ''u1''), (''rank'', PInt 2)],
          ud_account = [(''user_id'', PStr ''u1''), (''rank'', PInt 2)],
          ud_credit = [(''user_id'', PStr ''u1''), (''rank'', PInt 2)],
          ud_investments = [(''user_id'', PStr ''u1''), (''rank'', PInt 2)],
          ud_transactions = [], ud_sentiment = []\<rparr> \<and>
   first_match duplicate_rows_table ''u1'' 1 \<and>
   length (filter (row_matches (columns duplicate_rows_table) ''u1'') (rows duplicate_rows_table)) = 2 \<and>
   to_dict (columns duplicate_rows_table) (rows duplicate_rows_table ! 1) =
     [(''user_id'', PStr ''u1''), (''rank'', PInt 2)]"
proof -
  have h: "fst (get_user_data duplicate_rows_generator ''u1'') =
     Inr \<lparr>ud_demographics = [(''user_id'', PStr ''u1''), (''rank'', PInt 2)],
          ud_account = [(''user_id'', PStr ''u1''), (''rank'', PInt 2)],
          ud_credit = [(''user_id'', PStr ''u1''), (''rank'', PInt 2)],
          ud_investments = [(''user_id'', PStr ''u1''), (''rank'', PInt 2)],
          ud_transactions = [], ud_sentiment = []\<rparr>"
    by (simp add: lookup_defs duplicate_rows_generator_def duplicate_rows_table_def)
  have m: "first_match duplicate_rows_table ''u1'' 1"
    by (simp add: first_match_def duplicate_rows_table_def row_matches_def to_dict_def)
  have n: "length (filter (row_matches (columns duplicate_rows_table) ''u1'')
             (rows duplicate_rows_table)) = 2"
    by (simp add: duplicate_rows_table_def row_matches_def to_dict_def)
  from first_matching_row_selected[OF h, of 1] m
  have "[(''user_id'', PStr ''u1''), (''rank'', PInt 2)] =
        to_dict (columns duplicate_rows_table) (rows duplicate_rows_table ! 1)"
    by (simp add: duplicate_rows_generator_def)
  with h m n show ?thesis by simp
qed

subsection \<open>Rendering depends on the records only\<close>

lemma dict_get_cong: "map_of d = map_of d' \<Longrightarrow> dict_get d k x = dict_get d' k x"
  by (simp add: dict_get_def)

lemma empty_cong: "map_of d = map_of d' \<Longrightarrow> (d = []) = (d' = [])"
  by (metis map_of_eq_empty_iff)

lemma dict_get_ext: "map_of d = map_of d' \<Longrightarrow> dict_get d = dict_get d'"
  by (intro ext) (simp add: dict_get_def)

text \<open>
  C7. The renderer is a function of its six inputs and of nothing else, and of each dict
  it uses only the key-to-value mapping: two calls whose records and insight dicts have
  the same entries, in whatever order, return the same text or raise the same error.
\<close>

theorem rendering_deterministic:
  assumes "map_of d = map_of d'" "map_of a = map_of a'" "map_of c = map_of c'"
    "map_of i = map_of i'" "map_of t = map_of t'" "map_of s = map_of s'"
  shows "format_meta_prompt d a c i t s = format_meta_prompt d' a' c' i' t' s'"
proof -
  have 1: "demo_section d = demo_section d'"
    unfolding demo_section_def dict_get_ext[OF assms(1)] ..
  have 2: "finance_section a c = finance_section a' c'"
    unfolding finance_section_def dict_get_ext[OF assms(2)] dict_get_ext[OF assms(3)]
        empty_cong[OF assms(2)] empty_cong[OF assms(3)] ..
  have 3: "invest_section i = invest_section i'"
    unfolding invest_section_def dict_get_ext[OF assms(4)] ..
  have 4: "trans_section t = trans_section t'"
    unfolding trans_section_def dict_get_ext[OF assms(5)] ..
  have 5: "sentiment_section s = sentiment_section s'"
    unfolding sentiment_section_def dict_get_ext[OF assms(6)] ..
  have "format_sections d a c i t s = format_sections d' a' c' i' t' s'"
    unfolding format_sections_def 1 2 3 4 5 empty_cong[OF assms(1)] empty_cong[OF assms(2)]
        empty_cong[OF assms(3)] empty_cong[OF assms(4)] empty_cong[OF assms(5)]
        empty_cong[OF assms(6)] ..
  then show ?thesis by (simp add: format_meta_prompt_def)
qed

theorem rendering_deterministic_witness:
  "map_of [(''age'', PInt 34), (''city'', PStr ''Austin'')] =
     map_of [(''city'', PStr ''Austin''), (''age'', PInt 34)] \<and>
   format_meta_prompt [(''age'', PInt 34), (''city'', PStr ''Austin'')] [] [] [] [] [] =
     format_meta_prompt [(''city'', PStr ''Austin''), (''age'', PInt 34)] [] [] [] [] []"
proof -
  have h: "map_of [(''age'', PInt 34), (''city'', PStr ''Austin'')] =
     map_of [(''city'', PStr ''Austin''), (''age'', PInt 34)]"
    by (intro ext) simp
  from rendering_deterministic[OF h refl refl refl refl refl] h show ?thesis
    by simp
qed

subsection \<open>Section order and omission\<close>

lemma trans_section_shape:
  "trans_section t = Inr sec \<Longrightarrow> hd sec = ''## Spending Patterns'' \<and> sec \<noteq> [] \<and> (\<forall>l \<in> set (tl sec). \<not> is_header l)"
  by (auto simp add: trans_section_def is_header_def split: sum.splits if_splits)

lemma sentiment_section_shape:
  "sentiment_section t = Inr sec \<Longrightarrow> hd sec = ''## Social Media Insights'' \<and> sec \<noteq> [] \<and> (\<forall>l \<in> set (tl sec). \<not> is_header l)"
  by (auto simp add: sentiment_section_def is_header_def split: sum.splits if_splits)

lemma demo_section_shape:
  "hd (demo_section d) = ''## Demographic Profile'' \<and> demo_section d \<noteq> [] \<and> (\<forall>l \<in> set (tl (demo_section d)). \<not> is_header l)"
  by (simp add: demo_section_def is_header_def)

lemma finance_section_shape:
  "hd (finance_section a c) = ''## Financial Profile'' \<and> finance_section a c \<noteq> [] \<and> (\<forall>l \<in> set (tl (finance_section a c)). \<not> is_header l)"
  by (auto simp add: finance_section_def is_header_def)

lemma invest_section_shape:
  "hd (invest_section d) = ''## Investment Profile'' \<and> invest_section d \<noteq> [] \<and> (\<forall>l \<in> set (tl (invest_section d)). \<not> is_header l)"
  by (simp add: invest_section_def is_header_def)


lemma format_sections_split:
  assumes "format_sections d a c i t s = Inr secs"
  shows "\<exists>ts ss. secs = head_sections d a c i @ ts @ ss \<and>
           (if t = [] then ts = [] else \<exists>sec. trans_section t = Inr sec \<and> ts = [sec]) \<and>
           (if s = [] then ss = [] else \<exists>sec. sentiment_section s = Inr sec \<and> ss = [sec])"
  using assms unfolding format_sections_def head_sections_def Let_def
  by (cases "trans_section t"; cases "sentiment_section s"; cases "t = []"; cases "s = []") auto

lemma head_sections_headers:
  "map hd (head_sections d a c i) = expected_headers d a c i [] [] \<and>
   (\<forall>sec \<in> set (head_sections d a c i). sec \<noteq> [] \<and> (\<forall>l \<in> set (tl sec). \<not> is_header l))"
  using demo_section_shape[of d] finance_section_shape[of a c] invest_section_shape[of i]
  by (simp add: head_sections_def expected_headers_def)

lemma expected_headers_split:
  "expected_headers d a c i t s = expected_headers d a c i [] []
     @ (if t = [] then [] else [''## Spending Patterns''])
     @ (if s = [] then [] else [''## Social Media Insights''])"
  by (simp add: expected_headers_def)

lemma format_sections_headers:
  assumes "format_sections d a c i t s = Inr secs"
  shows "map hd secs = expected_headers d a c i t s \<and>
         (\<forall>sec \<in> set secs. sec \<noteq> [] \<and> (\<forall>l \<in> set (tl sec). \<not> is_header l))"
proof -
  from format_sections_split[OF assms] obtain ts ss where
    secs: "secs = head_sections d a c i @ ts @ ss" and
    ts: "if t = [] then ts = [] else \<exists>sec. trans_section t = Inr sec \<and> ts = [sec]" and
    ss: "if s = [] then ss = [] else \<exists>sec. sentiment_section s = Inr sec \<and> ss = [sec]"
    by blast
  from ts have t1: "map hd ts = (if t = [] then [] else [''## Spending Patterns'']) \<and>
      (\<forall>sec \<in> set ts. sec \<noteq> [] \<and> (\<forall>l \<in> set (tl sec). \<not> is_header l))"
    by (auto dest: trans_section_shape split: if_splits)
  from ss have s1: "map hd ss = (if s = [] then [] else [''## Social Media Insights'']) \<and>
      (\<forall>sec \<in> set ss. sec \<noteq> [] \<and> (\<forall>l \<in> set (tl sec). \<not> is_header l))"
    by (auto dest: sentiment_section_shape split: if_splits)
  from head_sections_headers[of d a c i] t1 s1 show ?thesis
    unfolding secs expected_headers_split[of d a c i t s] by auto
qed


lemma split_lines_line: "CHR 0x0A \<notin> set x \<Longrightarrow> split_lines x = [x]"
  by (induction x) auto

lemma split_lines_append:
  "CHR 0x0A \<notin> set x \<Longrightarrow> split_lines (x @ CHR 0x0A # rest) = x # split_lines rest"
  by (induction x) auto

lemma split_lines_join:
  "list_all (\<lambda>l. CHR 0x0A \<notin> set l) ls \<Longrightarrow> ls \<noteq> [] \<Longrightarrow>
   split_lines (intercalate newline ls) = ls"
proof (induction newline ls rule: intercalate.induct)
  case 1
  then show ?case by simp
next
  case (2 x)
  then show ?case by (simp add: split_lines_line)
next
  case (3 x y ys)
  then show ?case by (simp add: newline_def split_lines_append)
qed

lemma intercalate_append:
  "xs \<noteq> [] \<Longrightarrow> ys \<noteq> [] \<Longrightarrow>
   intercalate sep (xs @ ys) = intercalate sep xs @ sep @ intercalate sep ys"
proof (induction sep xs rule: intercalate.induct)
  case (1 sep)
  then show ?case by simp
next
  case (2 sep x)
  then show ?case by (cases ys) simp_all
next
  case (3 sep x y zs)
  then show ?case by simp
qed

lemma intercalate_nonempty: "xs \<noteq> [] \<Longrightarrow> hd xs \<noteq> [] \<Longrightarrow> intercalate sep xs \<noteq> []"
  by (induction sep xs rule: intercalate.induct) auto

lemma join_sections:
  "\<forall>sec \<in> set secs. sec \<noteq> [] \<Longrightarrow>
   intercalate (newline @ newline) (map (intercalate newline) secs) =
   intercalate newline (intercalate [[]] secs)"
proof (induction "[[]::string]" secs rule: intercalate.induct)
  case 1
  then show ?case by simp
next
  case (2 x)
  then show ?case by simp
next
  case (3 x y ys)
  have ne: "intercalate [[]] (y # ys) \<noteq> []"
    using 3 by (intro intercalate_nonempty) simp_all
  have x: "x \<noteq> []" using 3 by simp
  have "intercalate newline (x @ [] # intercalate [[]] (y # ys)) =
        intercalate newline x @ newline @ intercalate newline ([] # intercalate [[]] (y # ys))"
    using intercalate_append[OF x, of "[] # intercalate [[]] (y # ys)" newline] by simp
  also have "intercalate newline ([] # intercalate [[]] (y # ys)) =
        newline @ intercalate newline (intercalate [[]] (y # ys))"
    using ne by (cases "intercalate [[]] (y # ys)") simp_all
  finally show ?case using 3 by simp
qed

lemma filter_header_sections:
  "\<forall>sec \<in> set secs. sec \<noteq> [] \<and> is_header (hd sec) \<and> (\<forall>l \<in> set (tl sec). \<not> is_header l) \<Longrightarrow>
   filter is_header (intercalate [[]] secs) = map hd secs"
proof (induction "[[]::string]" secs rule: intercalate.induct)
  case 1
  then show ?case by simp
next
  case (2 x)
  then show ?case by (cases x) (auto simp add: filter_empty_conv)
next
  case (3 x y ys)
  then have "filter is_header x = [hd x]"
    by (cases x) (auto simp add: filter_empty_conv)
  with 3 show ?case by (simp add: is_header_def)
qed

lemma expected_headers_are_headers: "\<forall>h \<in> set (expected_headers d a c i t s). is_header h"
  by (simp add: expected_headers_def is_header_def)

lemma all_lines_newline_free:
  "newline_free secs \<Longrightarrow> list_all (\<lambda>l. CHR 0x0A \<notin> set l) (intercalate [[]] secs)"
  by (induction "[[]::string]" secs rule: intercalate.induct) (simp_all add: newline_free_def)

lemma is_header_nonempty: "is_header l \<Longrightarrow> l \<noteq> []"
  by (auto simp add: is_header_def)

lemma joined_nonempty:
  assumes "secs \<noteq> []" and "\<forall>sec \<in> set secs. sec \<noteq> [] \<and> is_header (hd sec)"
  shows "intercalate (newline @ newline) (map (intercalate newline) secs) \<noteq> []"
proof -
  from assms obtain sec rest where secs: "secs = sec # rest" by (cases secs) auto
  with assms(2) have "sec \<noteq> []" "hd sec \<noteq> []" by (auto dest: is_header_nonempty)
  then have "intercalate newline sec \<noteq> []" by (rule intercalate_nonempty)
  then show ?thesis unfolding secs by (intro intercalate_nonempty) simp_all
qed

text \<open>
  C3, as the claim states it, fails: a field value is printed as it is, so an occupation
  holding a newline followed by \<open>## Investment Profile\<close> puts that header line into the
  text although the investment record is empty.
\<close>

theorem header_line_counterexample:
  "expected_headers
     [(''occupation'', PStr (''x'' @ newline @ ''## Investment Profile''))] [] [] [] [] [] =
     [''## Demographic Profile''] \<and>
   map_sum id (filter is_header \<circ> split_lines)
     (format_meta_prompt
        [(''occupation'', PStr (''x'' @ newline @ ''## Investment Profile''))] [] [] [] [] []) =
     Inr [''## Demographic Profile'', ''## Investment Profile'']"
  by (simp add: expected_headers_def render_defs is_header_def)

text \<open>
  C3, amended. When the renderer returns, the sections it joined are headed, in this
  order, by the headers of Demographic Profile, Financial Profile (account and credit
  together), Investment Profile, Spending Patterns and Social Media Insights, each present
  exactly when its source is non-empty; no other line of a section is a header line; and
  when no rendered line contains a newline, the header lines of the returned text are
  exactly those headers.
\<close>

theorem section_order_and_omission:
  assumes "format_meta_prompt d a c i t s = Inr out"
  shows "\<exists>secs. format_sections d a c i t s = Inr secs \<and>
           map hd secs = expected_headers d a c i t s \<and>
           (\<forall>sec \<in> set secs. \<forall>l \<in> set (tl sec). \<not> is_header l) \<and>
           out = (if secs = [] then fallback_new
                  else intercalate (newline @ newline) (map (intercalate newline) secs)) \<and>
           (newline_free secs \<longrightarrow> filter is_header (split_lines out) = expected_headers d a c i t s)"
proof -
  from assms obtain secs where secs: "format_sections d a c i t s = Inr secs"
    by (auto simp add: format_meta_prompt_def split: sum.splits)
  note h = format_sections_headers[OF secs]
  from h have ne: "\<forall>sec \<in> set secs. sec \<noteq> []" by blast
  from h have hd_in: "\<forall>sec \<in> set secs. hd sec \<in> set (expected_headers d a c i t s)"
    by (metis image_eqI list.set_map)
  with expected_headers_are_headers[of d a c i t s]
  have hdr: "\<forall>sec \<in> set secs. is_header (hd sec)" by blast
  have out: "out = (if secs = [] then fallback_new
                  else intercalate (newline @ newline) (map (intercalate newline) secs))"
  proof (cases "secs = []")
    case True
    with assms secs show ?thesis by (simp add: format_meta_prompt_def)
  next
    case False
    with joined_nonempty[OF False] ne hdr assms secs show ?thesis
      by (simp add: format_meta_prompt_def Let_def)
  qed
  have lines: "filter is_header (split_lines out) = expected_headers d a c i t s"
    if nf: "newline_free secs"
  proof (cases "secs = []")
    case True
    with out have "out = fallback_new" by simp
    moreover have "filter is_header (split_lines fallback_new) = []"
      by (simp add: fallback_new_def is_header_def)
    moreover from True h have "expected_headers d a c i t s = []" by simp
    ultimately show ?thesis by simp
  next
    case False
    with out have "out = intercalate newline (intercalate [[]] secs)"
      by (simp add: join_sections[OF ne])
    moreover have "intercalate [[]] secs \<noteq> []"
      using False ne by (intro intercalate_nonempty) (simp_all add: hd_in_set)
    ultimately have "split_lines out = intercalate [[]] secs"
      using split_lines_join[OF all_lines_newline_free[OF nf]] by simp
    moreover have "filter is_header (intercalate [[]] secs) = map hd secs"
      using h hdr by (intro filter_header_sections) blast
    ultimately show ?thesis using h by simp
  qed
  from secs h out lines show ?thesis by blast
qed

theorem section_order_and_omission_witness:
  "expected_headers [(''age'', PInt 34)] [] [(''credit_score'', PInt 700)] [] []
     [(''overall_sentiment'', PStr ''positive'')] =
     [''## Demographic Profile'', ''## Financial Profile'', ''## Social Media Insights''] \<and>
   map_sum id (filter is_header \<circ> split_lines)
     (format_meta_prompt [(''age'', PInt 34)] [] [(''credit_score'', PInt 700)] [] []
        [(''overall_sentiment'', PStr ''positive'')]) =
     Inr [''## Demographic Profile'', ''## Financial Profile'', ''## Social Media Insights''] \<and>
   map_sum id (map hd)
     (format_sections [(''age'', PInt 34)] [] [(''credit_score'', PInt 700)] [] []
        [(''overall_sentiment'', PStr ''positive'')]) =
     Inr [''## Demographic Profile'', ''## Financial Profile'', ''## Social Media Insights'']"
proof -
  let ?d = "[(''age'', PInt 34)]"
  let ?c = "[(''credit_score'', PInt 700)]"
  let ?s = "[(''overall_sentiment'', PStr ''positive'')]"
  obtain out where h: "format_meta_prompt ?d [] ?c [] [] ?s = Inr out"
    by (simp add: render_defs)
  have e: "expected_headers ?d [] ?c [] [] ?s =
     [''## Demographic Profile'', ''## Financial Profile'', ''## Social Media Insights'']"
    by (simp add: expected_headers_def)
  have n: "\<exists>secs. format_sections ?d [] ?c [] [] ?s = Inr secs \<and> newline_free secs"
    by (simp add: format_sections_def demo_section_def finance_section_def
        sentiment_section_def dict_get_def newline_free_def int_defs)
  from section_order_and_omission[OF h] n obtain secs where
    fs: "format_sections ?d [] ?c [] [] ?s = Inr secs" and
    hs: "map hd secs = expected_headers ?d [] ?c [] [] ?s" and
    ls: "filter is_header (split_lines out) = expected_headers ?d [] ?c [] [] ?s"
    by auto
  from h e fs hs ls show ?thesis by simp
qed

subsection \<open>Field lines\<close>

lemma shown_dict_get: "py_str (dict_get d k (PStr p)) = shown d k p"
  by (simp add: dict_get_def shown_def split: option.splits)

text \<open>
  C4, as the claim states it, fails: for the insight dict that has only
  \<open>monthly_spending\<close>, the Spending Patterns section shows the absent
  \<open>large_transactions\<close> as \<open>None\<close>, not \<open>Unknown\<close>, and has no line for the absent
  \<open>recurring_payments\<close>.
\<close>

theorem spending_section_counterexample:
  "map_sum id split_lines
     (format_meta_prompt [] [] [] [] [(''monthly_spending'', PInt 100)] []) =
   Inr [''## Spending Patterns'', ''Monthly Spending: $100'', ''Top Spending Categories: Unknown'',
        ''Recent Large Transactions: None'']"
  by (simp add: render_defs int_defs)

lemma section_lines:
  "demo_section d =
     [''## Demographic Profile'',
      ''Age: '' @ shown d ''age'' ''Unknown'',
      ''Gender: '' @ shown d ''gender'' ''Unknown'',
      ''Occupation: '' @ shown d ''occupation'' ''Unknown'',
      ''Annual Income: $'' @ shown d ''annual_income'' ''Unknown'',
      ''Education: '' @ shown d ''education_level'' ''Unknown'',
      ''Location: '' @ shown d ''city'' ''Unknown'' @ '', '' @ shown d ''state'' ''Unknown''] \<and>
   finance_section a c =
     ''## Financial Profile'' #
     (if a = [] then []
      else [''Account Type: '' @ shown a ''account_type'' ''Unknown'',
            ''Account Balance: $'' @ shown a ''account_balance'' ''Unknown'',
            ''Savings Balance: $'' @ shown a ''savings_balance'' ''Unknown'',
            ''Account Opened: '' @ shown a ''account_opening_date'' ''Unknown'']) @
     (if c = [] then []
      else [''Credit Score: '' @ shown c ''credit_score'' ''Unknown'',
            ''Outstanding Debt: $'' @ shown c ''outstanding_debt'' ''Unknown'',
            ''Credit Utilization: '' @ shown c ''credit_utilization'' ''Unknown'' @ ''%'',
            ''Payment History: '' @ shown c ''payment_history'' ''Unknown'']) \<and>
   invest_section i =
     [''## Investment Profile'',
      ''Risk Tolerance: '' @ shown i ''risk_tolerance'' ''Unknown'',
      ''Investment Goals: '' @ shown i ''investment_goals'' ''Unknown'',
      ''Current Investments: $'' @ shown i ''current_investments'' ''Unknown'',
      ''Retirement Savings: $'' @ shown i ''retirement_savings'' ''Unknown'',
      ''Investment Preferences: '' @ shown i ''investment_preferences'' ''Unknown''] \<and>
   (\<forall>lines. trans_section t = Inr lines \<longrightarrow>
      (\<exists>cats. py_join '', '' (case map_of t ''top_categories'' of
                                None \<Rightarrow> PList [PStr ''Unknown''] | Some v \<Rightarrow> v) = Inr cats \<and>
         (map_of t ''top_categories'' = None \<longrightarrow> cats = ''Unknown'') \<and>
         lines =
           [''## Spending Patterns'',
            ''Monthly Spending: $'' @ shown t ''monthly_spending'' ''Unknown'',
            ''Top Spending Categories: '' @ cats,
            ''Recent Large Transactions: '' @ shown t ''large_transactions'' ''None''] @
           (case map_of t ''recurring_payments'' of
              None \<Rightarrow> []
            | Some v \<Rightarrow> (if py_truthy v then [''Recurring Payments: '' @ py_str v] else [])))) \<and>
   (\<forall>lines. sentiment_section s = Inr lines \<longrightarrow>
      (\<exists>interests. py_join '', '' (case map_of s ''financial_interests'' of
                                None \<Rightarrow> PList [PStr ''Unknown''] | Some v \<Rightarrow> v) = Inr interests \<and>
         (map_of s ''financial_interests'' = None \<longrightarrow> interests = ''Unknown'') \<and>
         lines =
           [''## Social Media Insights'',
            ''Overall Sentiment: '' @ shown s ''overall_sentiment'' ''Unknown'',
            ''Financial Interests: '' @ interests,
            ''Recent Concerns: '' @ shown s ''financial_concerns'' ''None'']))"
proof (intro conjI allI impI)
  show "demo_section d =
     [''## Demographic Profile'',
      ''Age: '' @ shown d ''age'' ''Unknown'',
      ''Gender: '' @ shown d ''gender'' ''Unknown'',
      ''Occupation: '' @ shown d ''occupation'' ''Unknown'',
      ''Annual Income: $'' @ shown d ''annual_income'' ''Unknown'',
      ''Education: '' @ shown d ''education_level'' ''Unknown'',
      ''Location: '' @ shown d ''city'' ''Unknown'' @ '', '' @ shown d ''state'' ''Unknown'']"
    by (simp add: demo_section_def shown_dict_get)
next
  show "finance_section a c =
     ''## Financial Profile'' #
     (if a = [] then []
      else [''Account Type: '' @ shown a ''account_type'' ''Unknown'',
            ''Account Balance: $'' @ shown a ''account_balance'' ''Unknown'',
            ''Savings Balance: $'' @ shown a ''savings_balance'' ''Unknown'',
            ''Account Opened: '' @ shown a ''account_opening_date'' ''Unknown'']) @
     (if c = [] then []
      else [''Credit Score: '' @ shown c ''credit_score'' ''Unknown'',
            ''Outstanding Debt: $'' @ shown c ''outstanding_debt'' ''Unknown'',
            ''Credit Utilization: '' @ shown c ''credit_utilization'' ''Unknown'' @ ''%'',
            ''Payment History: '' @ shown c ''payment_history'' ''Unknown''])"
    by (simp add: finance_section_def shown_dict_get)
next
  show "invest_section i =
     [''## Investment Profile'',
      ''Risk Tolerance: '' @ shown i ''risk_tolerance'' ''Unknown'',
      ''Investment Goals: '' @ shown i ''investment_goals'' ''Unknown'',
      ''Current Investments: $'' @ shown i ''current_investments'' ''Unknown'',
      ''Retirement Savings: $'' @ shown i ''retirement_savings'' ''Unknown'',
      ''Investment Preferences: '' @ shown i ''investment_preferences'' ''Unknown'']"
    by (simp add: invest_section_def shown_dict_get)
next
  fix lines
  assume "trans_section t = Inr lines"
  then show "\<exists>cats. py_join '', '' (case map_of t ''top_categories'' of
                                None \<Rightarrow> PList [PStr ''Unknown''] | Some v \<Rightarrow> v) = Inr cats \<and>
         (map_of t ''top_categories'' = None \<longrightarrow> cats = ''Unknown'') \<and>
         lines =
           [''## Spending Patterns'',
            ''Monthly Spending: $'' @ shown t ''monthly_spending'' ''Unknown'',
            ''Top Spending Categories: '' @ cats,
            ''Recent Large Transactions: '' @ shown t ''large_transactions'' ''None''] @
           (case map_of t ''recurring_payments'' of
              None \<Rightarrow> []
            | Some v \<Rightarrow> (if py_truthy v then [''Recurring Payments: '' @ py_str v] else []))"
    by (auto simp add: trans_section_def dict_get_def shown_def split: sum.splits option.splits)
next
  fix lines
  assume "sentiment_section s = Inr lines"
  then show "\<exists>interests. py_join '', '' (case map_of s ''financial_interests'' of
                                None \<Rightarrow> PList [PStr ''Unknown''] | Some v \<Rightarrow> v) = Inr interests \<and>
         (map_of s ''financial_interests'' = None \<longrightarrow> interests = ''Unknown'') \<and>
         lines =
           [''## Social Media Insights'',
            ''Overall Sentiment: '' @ shown s ''overall_sentiment'' ''Unknown'',
            ''Financial Interests: '' @ interests,
            ''Recent Concerns: '' @ shown s ''financial_concerns'' ''None'']"
    by (auto simp add: sentiment_section_def dict_get_def shown_def
        split: sum.splits option.splits)
qed

lemma format_meta_prompt_joined:
  assumes "format_meta_prompt d a c i t s = Inr out"
  shows "\<exists>secs. format_sections d a c i t s = Inr secs \<and>
           out = (if secs = [] then fallback_new
                  else intercalate (newline @ newline) (map (intercalate newline) secs))"
proof -
  from assms obtain secs where secs: "format_sections d a c i t s = Inr secs"
    by (auto simp add: format_meta_prompt_def split: sum.splits)
  note h = format_sections_headers[OF secs]
  from h have ne: "\<forall>sec \<in> set secs. sec \<noteq> []" by blast
  from h have "\<forall>sec \<in> set secs. hd sec \<in> set (expected_headers d a c i t s)"
    by (metis image_eqI list.set_map)
  with expected_headers_are_headers[of d a c i t s]
  have hdr: "\<forall>sec \<in> set secs. is_header (hd sec)" by blast
  have "out = (if secs = [] then fallback_new
                  else intercalate (newline @ newline) (map (intercalate newline) secs))"
  proof (cases "secs = []")
    case True
    with assms secs show ?thesis by (simp add: format_meta_prompt_def)
  next
    case False
    with joined_nonempty[OF False] ne hdr assms secs show ?thesis
      by (simp add: format_meta_prompt_def Let_def)
  qed
  with secs show ?thesis by blast
qed

text \<open>
  C4, amended. When the renderer returns, its sections are these, joined by blank lines
  into the returned text. In the Demographic, Financial and Investment sections every
  field of the record has its line, showing the value's text, or \<open>Unknown\<close> when the
  record lacks the key; the four account lines and the four credit lines are there when
  that record is non-empty. In the two insight sections \<open>monthly_spending\<close>,
  \<open>top_categories\<close>, \<open>overall_sentiment\<close> and \<open>financial_interests\<close> show \<open>Unknown\<close>
  when absent, \<open>large_transactions\<close> and \<open>financial_concerns\<close> show \<open>None\<close> when absent,
  and the Recurring Payments line is there exactly when \<open>recurring_payments\<close> is present
  and truthy.
\<close>

theorem field_lines:
  assumes "format_meta_prompt d a c i t s = Inr out"
  shows "\<exists>cats interests secs.
     (t \<noteq> [] \<longrightarrow>
        py_join '', '' (case map_of t ''top_categories'' of
                          None \<Rightarrow> PList [PStr ''Unknown''] | Some v \<Rightarrow> v) = Inr cats) \<and>
     (t \<noteq> [] \<and> map_of t ''top_categories'' = None \<longrightarrow> cats = ''Unknown'') \<and>
     (s \<noteq> [] \<longrightarrow>
        py_join '', '' (case map_of s ''financial_interests'' of
                          None \<Rightarrow> PList [PStr ''Unknown''] | Some v \<Rightarrow> v) = Inr interests) \<and>
     (s \<noteq> [] \<and> map_of s ''financial_interests'' = None \<longrightarrow> interests = ''Unknown'') \<and>
     secs =
       (if d = [] then []
        else [[''## Demographic Profile'',
               ''Age: '' @ shown d ''age'' ''Unknown'',
               ''Gender: '' @ shown d ''gender'' ''Unknown'',
               ''Occupation: '' @ shown d ''occupation'' ''Unknown'',
               ''Annual Income: $'' @ shown d ''annual_income'' ''Unknown'',
               ''Education: '' @ shown d ''education_level'' ''Unknown'',
               ''Location: '' @ shown d ''city'' ''Unknown'' @ '', ''
                 @ shown d ''state'' ''Unknown'']]) @
       (if a = [] \<and> c = [] then []
        else [''## Financial Profile'' #
              (if a = [] then []
               else [''Account Type: '' @ shown a ''account_type'' ''Unknown'',
                     ''Account Balance: $'' @ shown a ''account_balance'' ''Unknown'',
                     ''Savings Balance: $'' @ shown a ''savings_balance'' ''Unknown'',
                     ''Account Opened: '' @ shown a ''account_opening_date'' ''Unknown'']) @
              (if c = [] then []
               else [''Credit Score: '' @ shown c ''credit_score'' ''Unknown'',
                     ''Outstanding Debt: $'' @ shown c ''outstanding_debt'' ''Unknown'',
                     ''Credit Utilization: '' @ shown c ''credit_utilization'' ''Unknown'' @ ''%'',
                     ''Payment History: '' @ shown c ''payment_history'' ''Unknown''])]) @
       (if i = [] then []
        else [[''## Investment Profile'',
               ''Risk Tolerance: '' @ shown i ''risk_tolerance'' ''Unknown'',
               ''Investment Goals: '' @ shown i ''investment_goals'' ''Unknown'',
               ''Current Investments: $'' @ shown i ''current_investments'' ''Unknown'',
               ''Retirement Savings: $'' @ shown i ''retirement_savings'' ''Unknown'',
               ''Investment Preferences: '' @ shown i ''investment_preferences'' ''Unknown'']]) @
       (if t = [] then []
        else [[''## Spending Patterns'',
               ''Monthly Spending: $'' @ shown t ''monthly_spending'' ''Unknown'',
               ''Top Spending Categories: '' @ cats,
               ''Recent Large Transactions: '' @ shown t ''large_transactions'' ''None''] @
              (case map_of t ''recurring_payments'' of
                 None \<Rightarrow> []
               | Some v \<Rightarrow> (if py_truthy v then [''Recurring Payments: '' @ py_str v] else []))]) @
       (if s = [] then []
        else [[''## Social Media Insights'',
               ''Overall Sentiment: '' @ shown s ''overall_sentiment'' ''Unknown'',
               ''Financial Interests: '' @ interests,
               ''Recent Concerns: '' @ shown s ''financial_concerns'' ''None'']]) \<and>
     format_sections d a c i t s = Inr secs \<and>
     out = (if secs = [] then fallback_new
            else intercalate (newline @ newline) (map (intercalate newline) secs))"
proof -
  from format_meta_prompt_joined[OF assms] obtain secs where
    secs: "format_sections d a c i t s = Inr secs" and
    out: "out = (if secs = [] then fallback_new
            else intercalate (newline @ newline) (map (intercalate newline) secs))"
    by blast
  from format_sections_split[OF secs] obtain ts ss where
    split: "secs = head_sections d a c i @ ts @ ss" and
    ts: "if t = [] then ts = [] else \<exists>sec. trans_section t = Inr sec \<and> ts = [sec]" and
    ss: "if s = [] then ss = [] else \<exists>sec. sentiment_section s = Inr sec \<and> ss = [sec]"
    by blast
  note sl = section_lines[of d a c i t s]
  have head: "head_sections d a c i =
       (if d = [] then []
        else [[''## Demographic Profile'',
               ''Age: '' @ shown d ''age'' ''Unknown'',
               ''Gender: '' @ shown d ''gender'' ''Unknown'',
               ''Occupation: '' @ shown d ''occupation'' ''Unknown'',
               ''Annual Income: $'' @ shown d ''annual_income'' ''Unknown'',
               ''Education: '' @ shown d ''education_level'' ''Unknown'',
               ''Location: '' @ shown d ''city'' ''Unknown'' @ '', ''
                 @ shown d ''state'' ''Unknown'']]) @
       (if a = [] \<and> c = [] then []
        else [''## Financial Profile'' #
              (if a = [] then []
               else [''Account Type: '' @ shown a ''account_type'' ''Unknown'',
                     ''Account Balance: $'' @ shown a ''account_balance'' ''Unknown'',
                     ''Savings Balance: $'' @ shown a ''savings_balance'' ''Unknown'',
                     ''Account Opened: '' @ shown a ''account_opening_date'' ''Unknown'']) @
              (if c = [] then []
               else [''Credit Score: '' @ shown c ''credit_score'' ''Unknown'',
                     ''Outstanding Debt: $'' @ shown c ''outstanding_debt'' ''Unknown'',
                     ''Credit Utilization: '' @ shown c ''credit_utilization'' ''Unknown'' @ ''%'',
                     ''Payment History: '' @ shown c ''payment_history'' ''Unknown''])]) @
       (if i = [] then []
        else [[''## Investment Profile'',
               ''Risk Tolerance: '' @ shown i ''risk_tolerance'' ''Unknown'',
               ''Investment Goals: '' @ shown i ''investment_goals'' ''Unknown'',
               ''Current Investments: $'' @ shown i ''current_investments'' ''Unknown'',
               ''Retirement Savings: $'' @ shown i ''retirement_savings'' ''Unknown'',
               ''Investment Preferences: '' @ shown i ''investment_preferences'' ''Unknown'']])"
    using sl unfolding head_sections_def by simp
  obtain cats where cats:
    "t \<noteq> [] \<longrightarrow>
        py_join '', '' (case map_of t ''top_categories'' of
                          None \<Rightarrow> PList [PStr ''Unknown''] | Some v \<Rightarrow> v) = Inr cats"
    "t \<noteq> [] \<and> map_of t ''top_categories'' = None \<longrightarrow> cats = ''Unknown''"
    "ts = (if t = [] then []
        else [[''## Spending Patterns'',
               ''Monthly Spending: $'' @ shown t ''monthly_spending'' ''Unknown'',
               ''Top Spending Categories: '' @ cats,
               ''Recent Large Transactions: '' @ shown t ''large_transactions'' ''None''] @
              (case map_of t ''recurring_payments'' of
                 None \<Rightarrow> []
               | Some v \<Rightarrow> (if py_truthy v then [''Recurring Payments: '' @ py_str v] else []))])"
  proof (cases "t = []")
    case True
    with ts that[of "[]"] show ?thesis by simp
  next
    case False
    with ts obtain sec where sec: "trans_section t = Inr sec" "ts = [sec]" by auto
    with sl obtain cats where
      "py_join '', '' (case map_of t ''top_categories'' of
                          None \<Rightarrow> PList [PStr ''Unknown''] | Some v \<Rightarrow> v) = Inr cats"
      "map_of t ''top_categories'' = None \<longrightarrow> cats = ''Unknown''"
      "sec = [''## Spending Patterns'',
               ''Monthly Spending: $'' @ shown t ''monthly_spending'' ''Unknown'',
               ''Top Spending Categories: '' @ cats,
               ''Recent Large Transactions: '' @ shown t ''large_transactions'' ''None''] @
              (case map_of t ''recurring_payments'' of
                 None \<Rightarrow> []
               | Some v \<Rightarrow> (if py_truthy v then [''Recurring Payments: '' @ py_str v] else []))"
      by blast
    with False sec that[of cats] show ?thesis by simp
  qed
  obtain interests where interests:
    "s \<noteq> [] \<longrightarrow>
        py_join '', '' (case map_of s ''financial_interests'' of
                          None \<Rightarrow> PList [PStr ''Unknown''] | Some v \<Rightarrow> v) = Inr interests"
    "s \<noteq> [] \<and> map_of s ''financial_interests'' = None \<longrightarrow> interests = ''Unknown''"
    "ss = (if s = [] then []
        else [[''## Social Media Insights'',
               ''Overall Sentiment: '' @ shown s ''overall_sentiment'' ''Unknown'',
               ''Financial Interests: '' @ interests,
               ''Recent Concerns: '' @ shown s ''financial_concerns'' ''None'']])"
  proof (cases "s = []")
    case True
    with ss that[of "[]"] show ?thesis by simp
  next
    case False
    with ss obtain sec where sec: "sentiment_section s = Inr sec" "ss = [sec]" by auto
    with sl obtain interests where
      "py_join '', '' (case map_of s ''financial_interests'' of
                          None \<Rightarrow> PList [PStr ''Unknown''] | Some v \<Rightarrow> v) = Inr interests"
      "map_of s ''financial_interests'' = None \<longrightarrow> interests = ''Unknown''"
      "sec = [''## Social Media Insights'',
               ''Overall Sentiment: '' @ shown s ''overall_sentiment'' ''Unknown'',
               ''Financial Interests: '' @ interests,
               ''Recent Concerns: '' @ shown s ''financial_concerns'' ''None'']"
      by blast
    with False sec that[of interests] show ?thesis by simp
  qed
  show ?thesis
    apply (rule exI[of _ cats], rule exI[of _ interests], rule exI[of _ secs])
    apply (intro conjI)
          apply (rule cats(1))
         apply (rule cats(2))
        apply (rule interests(1))
       apply (rule interests(2))
      apply (simp only: split head cats(3) interests(3) append_assoc)
     apply (rule secs)
    apply (rule out)
    done
qed


theorem field_lines_witness:
  "format_sections [] [] [(''outstanding_debt'', PInt 5)] []
     [(''monthly_spending'', PInt 100), (''recurring_payments'', PStr ''Rent'')]
     [(''overall_sentiment'', PStr ''positive'')] =
   Inr [[''## Financial Profile'', ''Credit Score: Unknown'', ''Outstanding Debt: $5'',
         ''Credit Utilization: Unknown%'', ''Payment History: Unknown''],
        [''## Spending Patterns'', ''Monthly Spending: $100'',
         ''Top Spending Categories: Unknown'', ''Recent Large Transactions: None'',
         ''Recurring Payments: Rent''],
        [''## Social Media Insights'', ''Overall Sentiment: positive'',
         ''Financial Interests: Unknown'', ''Recent Concerns: None'']] \<and>
   map_sum id split_lines
     (format_meta_prompt [] [] [(''outstanding_debt'', PInt 5)] []
        [(''monthly_spending'', PInt 100), (''recurring_payments'', PStr ''Rent'')]
        [(''overall_sentiment'', PStr ''positive'')]) =
   Inr [''## Financial Profile'', ''Credit Score: Unknown'', ''Outstanding Debt: $5'',
        ''Credit Utilization: Unknown%'', ''Payment History: Unknown'', [],
        ''## Spending Patterns'', ''Monthly Spending: $100'',
        ''Top Spending Categories: Unknown'', ''Recent Large Transactions: None'',
        ''Recurring Payments: Rent'', [],
        ''## Social Media Insights'', ''Overall Sentiment: positive'',
        ''Financial Interests: Unknown'', ''Recent Concerns: None'']"
proof -
  let ?c = "[(''outstanding_debt'', PInt 5)]"
  let ?t = "[(''monthly_spending'', PInt 100), (''recurring_payments'', PStr ''Rent'')]"
  let ?s = "[(''overall_sentiment'', PStr ''positive'')]"
  obtain out where h: "format_meta_prompt [] [] ?c [] ?t ?s = Inr out"
    by (simp add: render_defs)
  from field_lines[OF h] obtain cats interests secs where
    c: "cats = ''Unknown''" and i: "interests = ''Unknown''" and
    secs: "secs =
       [[''## Financial Profile'', ''Credit Score: Unknown'', ''Outstanding Debt: $5'',
         ''Credit Utilization: Unknown%'', ''Payment History: Unknown''],
        [''## Spending Patterns'', ''Monthly Spending: $100'',
         ''Top Spending Categories: '' @ cats, ''Recent Large Transactions: None'',
         ''Recurring Payments: Rent''],
        [''## Social Media Insights'', ''Overall Sentiment: positive'',
         ''Financial Interests: '' @ interests, ''Recent Concerns: None'']]" and
    fs: "format_sections [] [] ?c [] ?t ?s = Inr secs" and
    out: "out = (if secs = [] then fallback_new
            else intercalate (newline @ newline) (map (intercalate newline) secs))"
    by (auto simp add: shown_def int_defs)
  from fs secs c i have 1: "format_sections [] [] ?c [] ?t ?s =
   Inr [[''## Financial Profile'', ''Credit Score: Unknown'', ''Outstanding Debt: $5'',
         ''Credit Utilization: Unknown%'', ''Payment History: Unknown''],
        [''## Spending Patterns'', ''Monthly Spending: $100'',
         ''Top Spending Categories: Unknown'', ''Recent Large Transactions: None'',
         ''Recurring Payments: Rent''],
        [''## Social Media Insights'', ''Overall Sentiment: positive'',
         ''Financial Interests: Unknown'', ''Recent Concerns: None'']]"
    by simp
  from out secs c i have "split_lines out =
     [''## Financial Profile'', ''Credit Score: Unknown'', ''Outstanding Debt: $5'',
        ''Credit Utilization: Unknown%'', ''Payment History: Unknown'', [],
        ''## Spending Patterns'', ''Monthly Spending: $100'',
        ''Top Spending Categories: Unknown'', ''Recent Large Transactions: None'',
        ''Recurring Payments: Rent'', [],
        ''## Social Media Insights'', ''Overall Sentiment: positive'',
        ''Financial Interests: Unknown'', ''Recent Concerns: None'']"
    by (simp add: newline_def)
  with h 1 show ?thesis by simp
qed

subsection \<open>Monthly spending\<close>

lemma month_total_Cons:
  "month_total (t # ts) m = (if tx_month t = m then tx_amount t else 0) + month_total ts m"
  by (simp add: month_total_def)

lemma sum_list_indicator:
  "distinct ms \<Longrightarrow>
   sum_list (map (\<lambda>m. if k = m then (a::rat) else 0) ms) = (if k \<in> set ms then a else 0)"
  by (induction ms) auto

lemma month_totals_sum:
  "distinct ms \<Longrightarrow> tx_month ` set ts \<subseteq> set ms \<Longrightarrow>
   sum_list (map (month_total ts) ms) = sum_list (map tx_amount ts)"
proof (induction ts)
  case Nil
  then show ?case by (simp add: month_total_def)
next
  case (Cons t ts)
  have "sum_list (map (month_total (t # ts)) ms) =
        sum_list (map (\<lambda>m. if tx_month t = m then tx_amount t else 0) ms)
        + sum_list (map (month_total ts) ms)"
    by (induction ms) (simp_all add: month_total_Cons)
  with Cons show ?case by (simp add: sum_list_indicator)
qed

lemma monthly_spending_total:
  assumes "ts \<noteq> []"
  shows "monthly_spending ts = sum_list (map tx_amount ts) / of_nat (card (tx_month ` set ts))"
proof -
  have "sum_list (map (month_total ts) (remdups (map tx_month ts))) = sum_list (map tx_amount ts)"
    by (rule month_totals_sum) simp_all
  moreover have "length (remdups (map tx_month ts)) = card (tx_month ` set ts)"
    by (simp add: length_remdups_card_conv)
  moreover from assms have "remdups (map tx_month ts) \<noteq> []" by simp
  ultimately show ?thesis by (simp add: monthly_spending_def Let_def)
qed

lemma monthly_spending_one_month:
  assumes "\<forall>t \<in> set ts. tx_month t = m"
  shows "monthly_spending ts = sum_list (map tx_amount ts)"
proof (cases "ts = []")
  case True
  then show ?thesis by (simp add: monthly_spending_def)
next
  case False
  with assms have "tx_month ` set ts = {m}" by (cases ts) auto
  with monthly_spending_total[OF False] show ?thesis by simp
qed

lemma monthly_spending_months:
  assumes "ts \<noteq> []" and "distinct ms" and "set ms = tx_month ` set ts"
  shows "monthly_spending ts = sum_list (map (month_total ts) ms) / of_nat (length ms)"
proof -
  from assms(2,3) have "sum_list (map (month_total ts) ms) = sum_list (map tx_amount ts)"
    by (intro month_totals_sum) simp_all
  moreover from assms(2,3) have "length ms = card (tx_month ` set ts)"
    by (metis distinct_card)
  ultimately show ?thesis using monthly_spending_total[OF assms(1)] by simp
qed

text \<open>
  C9, as the claim states it, fails on its own example: months 1 and 2 have the totals 150
  and 300, whose average is 225, not 100.
\<close>

theorem monthly_spending_example_counterexample:
  "monthly_spending example_transactions \<noteq> 100"
  by (simp add: monthly_spending_def month_total_def example_transactions_def)

text \<open>
  C9, amended. \<open>monthly_spending\<close> is the average of the per-month totals over the
  calendar months that occur, in whatever order the months are listed; when all
  transactions fall in one month it is the plain sum of the amounts; for the example it
  is 225.
\<close>

theorem monthly_spending_average:
  "(ts \<noteq> [] \<and> distinct ms \<and> set ms = tx_month ` set ts \<longrightarrow>
      monthly_spending ts = sum_list (map (month_total ts) ms) / of_nat (length ms)) \<and>
   ((\<forall>t \<in> set ts. tx_month t = m) \<longrightarrow> monthly_spending ts = sum_list (map tx_amount ts)) \<and>
   monthly_spending example_transactions = 225"
proof (intro conjI impI)
  assume "ts \<noteq> [] \<and> distinct ms \<and> set ms = tx_month ` set ts"
  then show "monthly_spending ts = sum_list (map (month_total ts) ms) / of_nat (length ms)"
    by (simp add: monthly_spending_months)
next
  assume "\<forall>t \<in> set ts. tx_month t = m"
  then show "monthly_spending ts = sum_list (map tx_amount ts)"
    by (rule monthly_spending_one_month)
next
  show "monthly_spending example_transactions = 225"
    by (simp add: monthly_spending_def month_total_def example_transactions_def)
qed

theorem monthly_spending_average_witness:
  "example_transactions \<noteq> [] \<and> distinct [1, 2 :: nat] \<and>
   set [1, 2] = tx_month ` set example_transactions \<and>
   month_total example_transactions 1 = 150 \<and> month_total example_transactions 2 = 300 \<and>
   monthly_spending example_transactions = (150 + 300) / 2 \<and>
   list_all (\<lambda>t. tx_month t = 1) (take 1 example_transactions) \<and>
   monthly_spending (take 1 example_transactions) = 100"
proof -
  have h1: "example_transactions \<noteq> [] \<and> distinct [1, 2 :: nat] \<and>
      set [1, 2] = tx_month ` set example_transactions"
    by (auto simp add: example_transactions_def)
  have h2: "\<forall>t \<in> set (take 1 example_transactions). tx_month t = 1"
    by (simp add: example_transactions_def)
  have m: "month_total example_transactions 1 = 150 \<and> month_total example_transactions 2 = 300"
    by (simp add: month_total_def example_transactions_def)
  have s: "sum_list (map tx_amount (take 1 example_transactions)) = 100"
    by (simp add: example_transactions_def)
  from monthly_spending_average[of example_transactions "[1, 2]"] h1 m
  have a: "monthly_spending example_transactions = (150 + 300) / 2" by simp
  from monthly_spending_average[of "take 1 example_transactions" _ 1] h2 s
  have b: "monthly_spending (take 1 example_transactions) = 100" by simp
  from h2 have "list_all (\<lambda>t. tx_month t = 1) (take 1 example_transactions)"
    by (simp add: list_all_iff)
  with h1 m a b show ?thesis by blast
qed

subsection \<open>update_one\<close>

lemma find_one_None: "find_one c q = None \<longleftrightarrow> find_one_index c q = None"
  by (simp add: find_one_def)

lemma py_eq_PStr: "py_eq k (PStr s) \<longleftrightarrow> k = PStr s"
  by (cases k) auto

lemma doc_set_string_key: "doc_set (PStr k) v doc = AList.update (PStr k) v doc"
  by (induction doc) (auto simp add: py_eq_PStr)

lemma as_document_update:
  "AList.update (PStr k) v (as_document d) = as_document (AList.update k v d)"
  by (induction d) (auto simp add: as_document_def)

lemma set_items_as_document:
  "set_items (as_document q) flds = as_document (merge_fields q flds)"
  unfolding set_items_def merge_fields_def
  by (induction flds arbitrary: q) (auto simp add: doc_set_string_key as_document_update)

lemma map_of_merge_fields: "map_of (merge_fields q flds) = map_of q ++ map_of (rev flds)"
  unfolding merge_fields_def
proof (induction flds arbitrary: q)
  case Nil
  then show ?case by simp
next
  case (Cons kv flds)
  obtain k v where kv: "kv = (k, v)" by (cases kv)
  show ?case
    by (simp add: kv Cons.IH update_conv' map_add_upd_left fun_upd_def map_add_def fun_eq_iff
        split: option.splits)
qed

lemma map_of_rev_distinct: "distinct (map fst xs) \<Longrightarrow> map_of (rev xs) = map_of xs"
  by (simp add: map_of_inject_set rev_map[symmetric])

lemma upsert_doc_wf:
  "wf_update u \<Longrightarrow> upsert_doc q u = Inr (as_document (merge_fields q (update_fields u)))"
  by (auto simp add: wf_update_def upsert_doc_def update_fields_def set_items_as_document
      split: option.splits pyval.splits)

lemma merge_pairs_errors: "merge_pairs doc xs = Inl e \<Longrightarrow> e = TypeError \<or> e = ValueError"
  by (induction xs arbitrary: doc) (auto split: option.splits list.splits if_splits)

lemma dict_update_errors: "dict_update doc v = Inl e \<Longrightarrow> e = TypeError \<or> e = ValueError"
  by (cases v) (auto dest: merge_pairs_errors)

lemma upsert_doc_errors: "upsert_doc q u = Inl e \<Longrightarrow> e = TypeError \<or> e = ValueError"
  by (auto simp add: upsert_doc_def dest: dict_update_errors split: option.splits)

lemma upsert_doc_not_iterable:
  "map_of u ''$set'' = Some v \<Longrightarrow> as_sequence v = None \<Longrightarrow> upsert_doc q u = Inl TypeError"
  by (cases v) (simp_all add: upsert_doc_def)

lemma update_one_no_match:
  assumes "find_one c q = None"
  shows "update_one c q u ups =
    (if ups then (case upsert_doc q u of Inl e \<Rightarrow> (Inl e, c)
                  | Inr new_doc \<Rightarrow> (Inl UnboundLocalError, c\<lparr>data := data c @ [new_doc]\<rparr>))
     else (Inl UnboundLocalError, c))"
  using assms by (simp add: update_one_def find_one_None insert_one_def split: sum.splits)

lemma update_one_result_match:
  "update_one c q u ups = (Inr res, c') \<Longrightarrow> find_one c q \<noteq> None"
  by (auto simp add: update_one_def find_one_None split: option.splits sum.splits if_splits)

text \<open>
  C10, amended. \<open>update_one\<close> returns a result only when \<open>find_one\<close> finds a document.
  When it finds none: without upsert the call fails with the unbound local name and the
  collection is unchanged; with upsert, when the merged document can be built it is
  appended and the call then fails with the unbound local name, and when \<open>dict.update\<close>
  raises on the operand of \<open>$set\<close> the call fails with that \<open>TypeError\<close> or
  \<open>ValueError\<close> and the collection is unchanged. A well-formed update always builds
  the merged document, the query's entries overridden by the update's; an operand that
  is not iterable always raises \<open>TypeError\<close>.
\<close>

theorem update_one_unbound_result:
  "(\<forall>res c'. update_one c q u ups = (Inr res, c') \<longrightarrow> find_one c q \<noteq> None) \<and>
   (find_one c q = None \<longrightarrow>
      (\<not> ups \<longrightarrow> update_one c q u ups = (Inl UnboundLocalError, c)) \<and>
      (ups \<longrightarrow>
         (\<forall>new_doc. upsert_doc q u = Inr new_doc \<longrightarrow>
            update_one c q u ups = (Inl UnboundLocalError, c\<lparr>data := data c @ [new_doc]\<rparr>)) \<and>
         (\<forall>e. upsert_doc q u = Inl e \<longrightarrow>
            (e = TypeError \<or> e = ValueError) \<and> update_one c q u ups = (Inl e, c)) \<and>
         (wf_update u \<longrightarrow>
            update_one c q u ups =
              (Inl UnboundLocalError,
               c\<lparr>data := data c @ [as_document (merge_fields q (update_fields u))]\<rparr>) \<and>
            (distinct (map fst (update_fields u)) \<longrightarrow>
               map_of (merge_fields q (update_fields u)) =
                 map_of q ++ map_of (update_fields u))) \<and>
         (\<forall>v. map_of u ''$set'' = Some v \<and> as_sequence v = None \<longrightarrow>
            update_one c q u ups = (Inl TypeError, c))))"
proof (intro conjI allI impI)
  fix res c'
  assume "update_one c q u ups = (Inr res, c')"
  then show "find_one c q \<noteq> None" by (rule update_one_result_match)
next
  assume "find_one c q = None" "\<not> ups"
  then show "update_one c q u ups = (Inl UnboundLocalError, c)"
    by (simp add: update_one_no_match)
next
  fix new_doc
  assume "find_one c q = None" "ups" "upsert_doc q u = Inr new_doc"
  then show "update_one c q u ups = (Inl UnboundLocalError, c\<lparr>data := data c @ [new_doc]\<rparr>)"
    by (simp add: update_one_no_match)
next
  fix e
  assume "upsert_doc q u = Inl e"
  then show "e = TypeError \<or> e = ValueError" by (rule upsert_doc_errors)
next
  fix e
  assume "find_one c q = None" "ups" "upsert_doc q u = Inl e"
  then show "update_one c q u ups = (Inl e, c)"
    by (simp add: update_one_no_match)
next
  assume "find_one c q = None" "ups" "wf_update u"
  then show "update_one c q u ups =
              (Inl UnboundLocalError,
               c\<lparr>data := data c @ [as_document (merge_fields q (update_fields u))]\<rparr>)"
    by (simp add: update_one_no_match upsert_doc_wf)
next
  assume "distinct (map fst (update_fields u))"
  then show "map_of (merge_fields q (update_fields u)) = map_of q ++ map_of (update_fields u)"
    by (simp add: map_of_merge_fields map_of_rev_distinct)
next
  fix v
  assume "find_one c q = None" "ups" "map_of u ''$set'' = Some v \<and> as_sequence v = None"
  then show "update_one c q u ups = (Inl TypeError, c)"
    by (simp add: update_one_no_match upsert_doc_not_iterable)
qed


text \<open>
  C10, as the claim states it, fails: with upsert and the update \<open>{'$set': 5}\<close>, a query
  that matches no document fails with \<open>TypeError\<close>, not with the unbound local name, and
  nothing has been inserted.
\<close>

theorem upsert_operand_counterexample:
  "find_one \<lparr>coll_name = ''users'', data = [[(PStr ''user_id'', PStr ''u1'')]]\<rparr>
     [(''user_id'', PStr ''u2'')] = None \<and>
   update_one \<lparr>coll_name = ''users'', data = [[(PStr ''user_id'', PStr ''u1'')]]\<rparr>
     [(''user_id'', PStr ''u2'')] [(''$set'', PInt 5)] True =
   (Inl TypeError, \<lparr>coll_name = ''users'', data = [[(PStr ''user_id'', PStr ''u1'')]]\<rparr>)"
  by (simp add: find_one_def find_one_index_def query_matches_def update_one_def upsert_doc_def)

theorem update_one_unbound_result_witness:
  "update_one \<lparr>coll_name = ''users'', data = [[(PStr ''user_id'', PStr ''u1'')]]\<rparr>
     [(''user_id'', PStr ''u1'')] [(''$set'', PDict [(''name'', PStr ''Ann'')])] False =
   (Inr \<lparr>matched_count = 1, modified_count = 1, upserted_id = PNone\<rparr>,
    \<lparr>coll_name = ''users'',
      data = [[(PStr ''user_id'', PStr ''u1''), (PStr ''name'', PStr ''Ann'')]]\<rparr>) \<and>
   find_one \<lparr>coll_name = ''users'', data = [[(PStr ''user_id'', PStr ''u1'')]]\<rparr>
     [(''user_id'', PStr ''u1'')] \<noteq> None \<and>
   find_one \<lparr>coll_name = ''users'', data = [[(PStr ''user_id'', PStr ''u1'')]]\<rparr>
     [(''user_id'', PStr ''u2'')] = None \<and>
   update_one \<lparr>coll_name = ''users'', data = [[(PStr ''user_id'', PStr ''u1'')]]\<rparr>
     [(''user_id'', PStr ''u2'')] [(''$set'', PDict [(''name'', PStr ''Ann'')])] False =
   (Inl UnboundLocalError,
    \<lparr>coll_name = ''users'', data = [[(PStr ''user_id'', PStr ''u1'')]]\<rparr>) \<and>
   wf_update [(''$set'', PDict [(''name'', PStr ''Ann'')])] \<and>
   update_one \<lparr>coll_name = ''users'', data = [[(PStr ''user_id'', PStr ''u1'')]]\<rparr>
     [(''user_id'', PStr ''u2'')] [(''$set'', PDict [(''name'', PStr ''Ann'')])] True =
   (Inl UnboundLocalError,
    \<lparr>coll_name = ''users'',
      data = [[(PStr ''user_id'', PStr ''u1'')],
              [(PStr ''user_id'', PStr ''u2''), (PStr ''name'', PStr ''Ann'')]]\<rparr>) \<and>
   upsert_doc [(''user_id'', PStr ''u2'')] [(''$set'', PList [])] =
     Inr [(PStr ''user_id'', PStr ''u2'')] \<and>
   update_one \<lparr>coll_name = ''users'', data = [[(PStr ''user_id'', PStr ''u1'')]]\<rparr>
     [(''user_id'', PStr ''u2'')] [(''$set'', PList [])] True =
   (Inl UnboundLocalError,
    \<lparr>coll_name = ''users'',
      data = [[(PStr ''user_id'', PStr ''u1'')], [(PStr ''user_id'', PStr ''u2'')]]\<rparr>) \<and>
   upsert_doc [(''user_id'', PStr ''u2'')] [(''$set'', PStr ''ab'')] = Inl ValueError \<and>
   update_one \<lparr>coll_name = ''users'', data = [[(PStr ''user_id'', PStr ''u1'')]]\<rparr>
     [(''user_id'', PStr ''u2'')] [(''$set'', PStr ''ab'')] True =
   (Inl ValueError, \<lparr>coll_name = ''users'', data = [[(PStr ''user_id'', PStr ''u1'')]]\<rparr>)"
proof -
  let ?c = "\<lparr>coll_name = ''users'', data = [[(PStr ''user_id'', PStr ''u1'')]]\<rparr>"
  let ?q = "[(''user_id'', PStr ''u2'')]"
  have r: "update_one ?c [(''user_id'', PStr ''u1'')]
       [(''$set'', PDict [(''name'', PStr ''Ann'')])] False =
     (Inr \<lparr>matched_count = 1, modified_count = 1, upserted_id = PNone\<rparr>,
      \<lparr>coll_name = ''users'',
        data = [[(PStr ''user_id'', PStr ''u1''), (PStr ''name'', PStr ''Ann'')]]\<rparr>)"
    by (simp add: update_one_def find_one_index_def query_matches_def set_items_def)
  have n: "find_one ?c ?q = None"
    by (simp add: find_one_def find_one_index_def query_matches_def)
  have w: "wf_update [(''$set'', PDict [(''name'', PStr ''Ann'')])]"
    by (simp add: wf_update_def)
  have f: "as_document (merge_fields ?q (update_fields [(''$set'', PDict [(''name'', PStr ''Ann'')])])) =
      [(PStr ''user_id'', PStr ''u2''), (PStr ''name'', PStr ''Ann'')]"
    by (simp add: merge_fields_def update_fields_def as_document_def)
  have d1: "upsert_doc ?q [(''$set'', PList [])] = Inr [(PStr ''user_id'', PStr ''u2'')]"
    by (simp add: upsert_doc_def as_document_def)
  have d2: "upsert_doc ?q [(''$set'', PStr ''ab'')] = Inl ValueError"
    by (simp add: upsert_doc_def as_document_def)
  note t0 = update_one_unbound_result[of ?c "[(''user_id'', PStr ''u1'')]"
      "[(''$set'', PDict [(''name'', PStr ''Ann'')])]" False]
  note t1 = update_one_unbound_result[of ?c ?q "[(''$set'', PDict [(''name'', PStr ''Ann'')])]" False]
  note t2 = update_one_unbound_result[of ?c ?q "[(''$set'', PDict [(''name'', PStr ''Ann'')])]" True]
  note t3 = update_one_unbound_result[of ?c ?q "[(''$set'', PList [])]" True]
  note t4 = update_one_unbound_result[of ?c ?q "[(''$set'', PStr ''ab'')]" True]
  from t0 r have a0: "find_one ?c [(''user_id'', PStr ''u1'')] \<noteq> None" by blast
  from t1 n have a1: "update_one ?c ?q [(''$set'', PDict [(''name'', PStr ''Ann'')])] False =
      (Inl UnboundLocalError, ?c)" by simp
  from t2 n w f have a2: "update_one ?c ?q [(''$set'', PDict [(''name'', PStr ''Ann'')])] True =
      (Inl UnboundLocalError,
       \<lparr>coll_name = ''users'',
         data = [[(PStr ''user_id'', PStr ''u1'')],
                 [(PStr ''user_id'', PStr ''u2''), (PStr ''name'', PStr ''Ann'')]]\<rparr>)"
    by simp
  from t3 n d1 have a3: "update_one ?c ?q [(''$set'', PList [])] True =
      (Inl UnboundLocalError,
       \<lparr>coll_name = ''users'',
         data = [[(PStr ''user_id'', PStr ''u1'')], [(PStr ''user_id'', PStr ''u2'')]]\<rparr>)"
    by simp
  from t4 n d2 have a4: "update_one ?c ?q [(''$set'', PStr ''ab'')] True = (Inl ValueError, ?c)"
    by simp
  from r a0 n a1 w a2 d1 a3 d2 a4 show ?thesis by blast
qed

end
